theory Spec2Isabelle
  imports Complex_Main
begin

section \<open>Data model\<close>

text \<open>
  The backend scores code blocks with a weighted SVM, a random forest and a neural network
  (the committee), caches trained SVMs, summarises scores in a histogram and proposes a
  diverse bootstrap sample with the Kennard-Stone algorithm.

  Python floats are modelled as \<^typ>\<open>real\<close> (in the histogram builder with the rounding of
  every operation to float64), Python ints as \<^typ>\<open>int\<close>, NumPy arrays as lists, matrices as
  lists of rows, insertion-ordered dictionaries as association lists.
\<close>

datatype py_error =
  RuntimeError string
| ValueError string
| IndexError

text \<open>\<open>WeightedBlockId.source\<close> is \<open>Literal["click", "threshold"]\<close>.\<close>

datatype source = Click | Threshold

text \<open>\<open>WeightedBlockId\<close> (the field \<open>id\<close> is called \<open>item_id\<close> here).\<close>

record weighted_block_id =
  item_id :: int
  item_source :: source

record similarity_histogram_request =
  selected_items :: "weighted_block_id list"
  rejected_items :: "weighted_block_id list"
  block_ids :: "int list"

record histogram_data =
  bins :: "real list"
  counts :: "nat list"
  bin_edges :: "real list"

record histogram_statistics =
  stat_min :: real
  stat_max :: real
  stat_mean :: real
  stat_median :: real

text \<open>\<open>CommitteePrediction\<close> and \<open>CommitteeVoteInfo\<close> have the same four fields.\<close>

record committee_prediction =
  svm_prediction :: int
  rf_prediction :: int
  mlp_prediction :: int
  vote_entropy :: real

text \<open>
  \<open>SimilarityHistogramResponse\<close>. The dictionaries are keyed by \<open>str(int(bid))\<close> in the
  source; the decimal rendering of an int is injective, so the model keys them by the int.
\<close>

record similarity_histogram_response =
  scores :: "(int \<times> real) list"
  histogram :: histogram_data
  statistics :: histogram_statistics
  total_items :: nat
  committee_votes :: "(int \<times> committee_prediction) list option"

text \<open>
  \<open>DataService\<close>: \<open>ready\<close> is \<open>_ready\<close>, \<open>metrics_frame\<close> is the metrics table
  (\<open>None\<close> when \<open>metrics.parquet\<close> was not found), one row per entry, a row being the
  \<open>block_id\<close> and the cells of the metric columns in column order (\<open>None\<close> is a null cell);
  \<open>metric_columns\<close> are the column names.
\<close>

record data_service =
  ready :: bool
  metrics_frame :: "(int \<times> real option list) list option"
  metric_columns :: "string list"

text \<open>
  What the services take from outside the repository: scikit-learn's \<open>StandardScaler\<close>,
  \<open>SVC\<close> and \<open>RandomForestClassifier\<close>, the PyTorch training of \<open>WeightedMLPClassifier\<close>,
  \<open>hashlib.md5\<close> of the formatted key, \<open>random.sample\<close> after \<open>random.seed(42)\<close>, and the two
  constants of \<open>constants.py\<close>. They are parameters of the model. A transform, a decision
  function and a prediction work row by row. The two fits that the source wraps in
  \<open>try/except\<close> return either the message of the exception or the fitted model.
\<close>

record ('k, 'svm, 'rf, 'mlp, 'sc) env =
  CLICK_WEIGHT :: real
  THRESHOLD_WEIGHT :: real
  md5_key :: "(int \<times> source) list \<Rightarrow> (int \<times> source) list \<Rightarrow> 'k"
  scaler_fit :: "real list list \<Rightarrow> 'sc"
  scaler_transform :: "'sc \<Rightarrow> real list \<Rightarrow> real list"
  svc_fit :: "real list list \<Rightarrow> int list \<Rightarrow> real list \<Rightarrow> 'svm"
  decision_function :: "'svm \<Rightarrow> real list \<Rightarrow> real"
  rf_fit :: "nat \<Rightarrow> nat \<Rightarrow> real list list \<Rightarrow> int list \<Rightarrow> real list option \<Rightarrow> string + 'rf"
  rf_predict :: "'rf \<Rightarrow> real list \<Rightarrow> int"
  mlp_fit :: "nat list \<Rightarrow> real list list \<Rightarrow> int list \<Rightarrow> real list option \<Rightarrow> string + 'mlp"
  mlp_predict :: "'mlp \<Rightarrow> real list \<Rightarrow> int"
  random_sample_42 :: "int list \<Rightarrow> nat \<Rightarrow> int list"

text \<open>Which classifier a call to a \<open>fit\<close> method trains.\<close>

datatype fit_event = Fit_SVC | Fit_RF | Fit_MLP

text \<open>
  The mutable state of a \<open>ClassificationService\<close> and of the \<open>CommitteeService\<close> it owns:
  \<open>svm_cache\<close> is \<open>_svm_cache\<close> in insertion order (oldest entry first),
  \<open>cs_rf_model\<close>, \<open>cs_mlp_model\<close> and \<open>cs_scaler\<close> are the committee service's
  \<open>_rf_model\<close>, \<open>_mlp_model\<close> and \<open>_scaler\<close>, and \<open>fits\<close> is the history of the calls
  to a \<open>fit\<close> method of a classifier, latest last.
\<close>

record ('k, 'svm, 'rf, 'mlp, 'sc) service_state =
  svm_cache :: "('k \<times> 'svm \<times> 'sc) list"
  cs_rf_model :: "'rf option"
  cs_mlp_model :: "'mlp option"
  cs_scaler :: "'sc option"
  fits :: "fit_event list"

definition max_cache_size :: nat where
  "max_cache_size = 100"

definition MIN_SAMPLES_PER_CLASS :: nat where
  "MIN_SAMPLES_PER_CLASS = 3"

section \<open>Committee service\<close>

text \<open>\<open>StandardScaler.transform\<close> and \<open>fit_transform\<close> on a matrix.\<close>

definition transform :: "('k, 'svm, 'rf, 'mlp, 'sc) env \<Rightarrow> 'sc \<Rightarrow> real list list \<Rightarrow> real list list" where
  "transform E sc X = map (scaler_transform E sc) X"

definition fit_transform :: "('k, 'svm, 'rf, 'mlp, 'sc) env \<Rightarrow> real list list \<Rightarrow> 'sc \<times> real list list" where
  "fit_transform E X = (let sc = scaler_fit E X in (sc, transform E sc X))"

text \<open>
  \<open>_train_rf\<close>: the number of trees is \<open>max(10, min(100, n // 2))\<close>, the depth
  \<open>min(5, max(2, int(log2(n + 1))))\<close>; an exception of the fit gives \<open>None\<close>.
\<close>

definition train_rf ::
  "('k, 'svm, 'rf, 'mlp, 'sc) env \<Rightarrow> real list list \<Rightarrow> int list \<Rightarrow> real list option \<Rightarrow> nat \<Rightarrow>
   ('k, 'svm, 'rf, 'mlp, 'sc) service_state \<Rightarrow> 'rf option \<times> ('k, 'svm, 'rf, 'mlp, 'sc) service_state" where
  "train_rf E X y weights n s =
     (let n_est = max 10 (min 100 (n div 2));
          depth = min 5 (max 2 (nat \<lfloor>log 2 (real (n + 1))\<rfloor>));
          s' = s\<lparr>fits := fits s @ [Fit_RF]\<rparr>
      in case rf_fit E n_est depth X y weights of
           Inr rf \<Rightarrow> (Some rf, s')
         | Inl e \<Rightarrow> (None, s'))"

text \<open>\<open>_train_mlp\<close>: hidden layers \<open>(16,)\<close> if \<open>n < 20\<close>, else \<open>(32, 16)\<close>.\<close>

definition train_mlp ::
  "('k, 'svm, 'rf, 'mlp, 'sc) env \<Rightarrow> real list list \<Rightarrow> int list \<Rightarrow> real list option \<Rightarrow> nat \<Rightarrow>
   ('k, 'svm, 'rf, 'mlp, 'sc) service_state \<Rightarrow> 'mlp option \<times> ('k, 'svm, 'rf, 'mlp, 'sc) service_state" where
  "train_mlp E X y weights n s =
     (let hidden = (if n < 20 then [16] else [32, 16]);
          s' = s\<lparr>fits := fits s @ [Fit_MLP]\<rparr>
      in case mlp_fit E hidden X y weights of
           Inr mlp \<Rightarrow> (Some mlp, s')
         | Inl e \<Rightarrow> (None, s'))"

text \<open>\<open>train_committee\<close>.\<close>

definition train_committee ::
  "('k, 'svm, 'rf, 'mlp, 'sc) env \<Rightarrow> real list list \<Rightarrow> int list \<Rightarrow> real list option \<Rightarrow>
   ('k, 'svm, 'rf, 'mlp, 'sc) service_state \<Rightarrow>
   ('rf option \<times> 'mlp option \<times> 'sc option) \<times> ('k, 'svm, 'rf, 'mlp, 'sc) service_state" where
  "train_committee E X_train y_train sample_weights s =
     (let n_positive = count_list y_train 1;
          n_negative = count_list y_train 0
      in if n_positive < MIN_SAMPLES_PER_CLASS \<or> n_negative < MIN_SAMPLES_PER_CLASS
         then ((None, None, None), s)
         else
           (let n_samples = length y_train;
                (scaler, X_scaled) = fit_transform E X_train;
                (rf_model, s1) = train_rf E X_scaled y_train sample_weights n_samples s;
                (mlp_model, s2) = train_mlp E X_scaled y_train sample_weights n_samples s1;
                s3 = s2\<lparr>cs_rf_model := rf_model, cs_mlp_model := mlp_model, cs_scaler := Some scaler\<rparr>
            in ((rf_model, mlp_model, Some scaler), s3)))"

text \<open>
  The entropy of three votes: \<open>counts = [votes.count(0), votes.count(1)]\<close> and
  \<open>sum(-p / 3 * log2(p / 3) for p in counts if p > 0)\<close>.
\<close>

definition entropy_of_votes :: "int list \<Rightarrow> real" where
  "entropy_of_votes votes =
     (let counts = [count_list votes 0, count_list votes 1]
      in sum_list (map (\<lambda>p. - real p / 3 * log 2 (real p / 3)) (filter (\<lambda>p. p > 0) counts)))"

text \<open>\<open>(svm_scores > 0).astype(int)\<close>.\<close>

definition svm_preds_of :: "real list \<Rightarrow> int list" where
  "svm_preds_of svm_scores = map (\<lambda>s. if s > 0 then 1 else 0) svm_scores"

text \<open>
  \<open>predict_with_committee\<close>. The dictionary it returns has the keys \<open>0, ..., n_samples - 1\<close>
  and is the list of its values here. A fitted forest and a \<open>WeightedMLPClassifier\<close> are
  truthy, so \<open>if rf_model\<close> tests for \<open>None\<close>. With a model present, an index beyond the
  rows of \<open>X\<close> raises \<open>IndexError\<close>.
\<close>

definition predict_with_committee ::
  "('k, 'svm, 'rf, 'mlp, 'sc) env \<Rightarrow> real list list \<Rightarrow> real list \<Rightarrow> 'rf option \<Rightarrow> 'mlp option \<Rightarrow>
   'sc option \<Rightarrow> py_error + committee_prediction list" where
  "predict_with_committee E X svm_scores rf_model mlp_model scaler =
     (let n_samples = length svm_scores;
          svm_preds = svm_preds_of svm_scores
      in if rf_model = None \<and> mlp_model = None
         then Inr (map (\<lambda>i. \<lparr>svm_prediction = svm_preds ! i, rf_prediction = svm_preds ! i,
                               mlp_prediction = svm_preds ! i, vote_entropy = 0\<rparr>) [0..<n_samples])
         else
           (let X_scaled = (case scaler of Some sc \<Rightarrow> transform E sc X | None \<Rightarrow> X);
                rf_preds = (case rf_model of Some rf \<Rightarrow> map (rf_predict E rf) X_scaled | None \<Rightarrow> svm_preds);
                mlp_preds = (case mlp_model of Some mlp \<Rightarrow> map (mlp_predict E mlp) X_scaled | None \<Rightarrow> svm_preds)
            in if length X < n_samples then Inl IndexError
               else Inr (map (\<lambda>i.
                      (let votes = [svm_preds ! i, rf_preds ! i, mlp_preds ! i]
                       in \<lparr>svm_prediction = votes ! 0, rf_prediction = votes ! 1,
                           mlp_prediction = votes ! 2, vote_entropy = entropy_of_votes votes\<rparr>))
                      [0..<n_samples])))"

text \<open>
  \<open>get_vote_info_dict\<close>: a dictionary from item id to the prediction at the item's index;
  an id that occurs again overwrites its entry, which keeps its place.
\<close>

fun dict_set :: "('a \<times> 'b) list \<Rightarrow> 'a \<Rightarrow> 'b \<Rightarrow> ('a \<times> 'b) list" where
  "dict_set [] k v = [(k, v)]"
| "dict_set ((k', v') # d) k v = (if k' = k then (k, v) # d else (k', v') # dict_set d k v)"

definition dict_of_pairs :: "('a \<times> 'b) list \<Rightarrow> ('a \<times> 'b) list" where
  "dict_of_pairs kvs = foldl (\<lambda>d (k, v). dict_set d k v) [] kvs"

definition get_vote_info_dict :: "int list \<Rightarrow> committee_prediction list \<Rightarrow> (int \<times> committee_prediction) list" where
  "get_vote_info_dict item_ids committee_predictions =
     dict_of_pairs (map (\<lambda>idx. (item_ids ! idx, committee_predictions ! idx))
                        (filter (\<lambda>idx. idx < length committee_predictions) [0..<length item_ids]))"

section \<open>SVM utilities and the histogram builder\<close>

text \<open>\<open>train_svm_model\<close>: absent weights are all ones.\<close>

definition train_svm_model ::
  "('k, 'svm, 'rf, 'mlp, 'sc) env \<Rightarrow> real list list \<Rightarrow> real list list \<Rightarrow> real list option \<Rightarrow>
   real list option \<Rightarrow> ('k, 'svm, 'rf, 'mlp, 'sc) service_state \<Rightarrow>
   ('svm \<times> 'sc) \<times> ('k, 'svm, 'rf, 'mlp, 'sc) service_state" where
  "train_svm_model E selected_vectors rejected_vectors selected_weights rejected_weights s =
     (let X = selected_vectors @ rejected_vectors;
          y = replicate (length selected_vectors) 1 @ replicate (length rejected_vectors) 0;
          sw = (case selected_weights of None \<Rightarrow> replicate (length selected_vectors) 1 | Some w \<Rightarrow> w);
          rw = (case rejected_weights of None \<Rightarrow> replicate (length rejected_vectors) 1 | Some w \<Rightarrow> w);
          sample_weights = sw @ rw;
          (scaler, X_scaled) = fit_transform E X;
          model = svc_fit E X_scaled y sample_weights
      in ((model, scaler), s\<lparr>fits := fits s @ [Fit_SVC]\<rparr>))"

text \<open>\<open>score_with_svm\<close>.\<close>

definition score_with_svm :: "('k, 'svm, 'rf, 'mlp, 'sc) env \<Rightarrow> 'svm \<Rightarrow> 'sc \<Rightarrow> real list list \<Rightarrow> real list" where
  "score_with_svm E model scaler feature_vectors =
     (let X_scaled = transform E scaler feature_vectors
      in map (decision_function E model) X_scaled)"

text \<open>
  NumPy computes the histogram and the statistics in IEEE 754 binary64. A float64 is a real
  \<open>m * 2\<^sup>e\<close> with \<open>\<bar>m\<bar> < 2\<^sup>5\<^sup>3\<close> and \<open>e \<ge> -1074\<close> (the subnormal numbers included), and
  every arithmetic operation returns \<open>float64\<close> of the exact result: the nearest float64,
  ties going to the even significand. Overflow to infinity is not part of the model; the
  statements about the histogram builder are about scores for which no operation overflows.
\<close>

definition round_half_even :: "real \<Rightarrow> int" where
  "round_half_even q =
     (let f = \<lfloor>q\<rfloor>; r = q - of_int f
      in if r < 1 / 2 \<or> (r = 1 / 2 \<and> even f) then f else f + 1)"

definition float64_exponent :: "real \<Rightarrow> int" where
  "float64_exponent x = max \<lfloor>log 2 \<bar>x\<bar>\<rfloor> (- 1022) - 52"

definition float64 :: "real \<Rightarrow> real" where
  "float64 x =
     (if x = 0 then 0
      else sgn x * (of_int (round_half_even (\<bar>x\<bar> / 2 powr of_int (float64_exponent x)))
                     * 2 powr of_int (float64_exponent x)))"

text \<open>\<open>np.min\<close> and \<open>np.max\<close> on a non-empty vector.\<close>

definition np_min :: "real list \<Rightarrow> real" where
  "np_min xs = fold min (tl xs) (hd xs)"

definition np_max :: "real list \<Rightarrow> real" where
  "np_max xs = fold max (tl xs) (hd xs)"

text \<open>
  \<open>np.add.reduce\<close> on a float64 vector adds NumPy's pairwise sum of the vector to the
  identity 0. The pairwise sum of fewer than 8 values adds them from left to right; of up to
  128 values it keeps 8 partial sums \<open>r\<close>, to which the following blocks of 8 values are
  added, sums them as a balanced tree and adds the remaining values from left to right; a
  longer vector is split at \<open>n / 2\<close> rounded down to a multiple of 8.
\<close>

fun unrolled_blocks :: "real list \<Rightarrow> real list \<Rightarrow> real list \<times> real list" where
  "unrolled_blocks r a =
     (if length a < 8 then (r, a)
      else unrolled_blocks (map (\<lambda>(x, y). float64 (x + y)) (zip r (take 8 a))) (drop 8 a))"

declare unrolled_blocks.simps [simp del]

function pairwise_sum :: "real list \<Rightarrow> real" where
  "pairwise_sum a =
     (if length a < 8 then foldl (\<lambda>res x. float64 (res + x)) 0 a
      else if length a \<le> 128 then
        (case unrolled_blocks (take 8 a) (drop 8 a) of
           (r, rest) \<Rightarrow>
             foldl (\<lambda>res x. float64 (res + x))
               (float64 (float64 (float64 (r ! 0 + r ! 1) + float64 (r ! 2 + r ! 3)) +
                         float64 (float64 (r ! 4 + r ! 5) + float64 (r ! 6 + r ! 7))))
               rest)
      else float64 (pairwise_sum (take (length a div 2 - length a div 2 mod 8) a) +
                    pairwise_sum (drop (length a div 2 - length a div 2 mod 8) a)))"
  by pat_completeness auto
termination
  by (relation "measure length") auto

declare pairwise_sum.simps [simp del]

definition np_add_reduce :: "real list \<Rightarrow> real" where
  "np_add_reduce a = float64 (0 + pairwise_sum a)"

text \<open>
  \<open>np.mean\<close> divides the sum by the count; \<open>np.median\<close> is \<open>np.mean\<close> of the middle element
  of the sorted vector, or of the two middle ones.
\<close>

definition np_mean :: "real list \<Rightarrow> real" where
  "np_mean a = float64 (np_add_reduce a / real (length a))"

definition np_median :: "real list \<Rightarrow> real" where
  "np_median a =
     (let part = sort a; sz = length a; index = sz div 2
      in if sz mod 2 = 1 then np_mean (take 1 (drop index part))
         else np_mean (take 2 (drop (index - 1) part)))"

text \<open>
  \<open>np.linspace(start, stop, num)\<close> with \<open>num > 1\<close>: \<open>step = delta / div\<close>, the points are
  \<open>i * step + start\<close> (\<open>(i / div) * delta + start\<close> when the step underflows to 0), and the
  last point is set to \<open>stop\<close>.
\<close>

definition np_linspace :: "real \<Rightarrow> real \<Rightarrow> nat \<Rightarrow> real list" where
  "np_linspace start stop num =
     (let dv = real (num - 1);
          delta = float64 (stop - start);
          step = float64 (delta / dv);
          y = (if step = 0
               then map (\<lambda>i. float64 (float64 (real i / dv) * delta)) [0..<num]
               else map (\<lambda>i. float64 (real i * step)) [0..<num])
      in (map (\<lambda>v. float64 (v + start)) y)[num - 1 := stop])"

text \<open>
  \<open>np.histogram(a, bins=nbins)\<close> on a non-empty vector: the range is
  \<open>(a.min(), a.max())\<close>, widened by \<open>0.5\<close> on each side when both are equal; the edges are
  \<open>np.linspace\<close> of the range with \<open>nbins + 1\<close> points; every bin is half-open but the last,
  which is closed. NumPy needs a range wide enough for bins of positive width (recent versions
  reject a narrower one with \<open>ValueError\<close>); the statements about the histogram builder are
  about such ranges, on which the edges are strictly increasing.
\<close>

definition outer_edges :: "real list \<Rightarrow> real \<times> real" where
  "outer_edges a =
     (let first_edge = np_min a; last_edge = np_max a
      in if first_edge = last_edge
         then (float64 (first_edge - 0.5), float64 (last_edge + 0.5))
         else (first_edge, last_edge))"

definition in_bin :: "real list \<Rightarrow> nat \<Rightarrow> nat \<Rightarrow> real \<Rightarrow> bool" where
  "in_bin edges nbins i x =
     (edges ! i \<le> x \<and> (if i + 1 = nbins then x \<le> edges ! (i + 1) else x < edges ! (i + 1)))"

definition np_histogram :: "real list \<Rightarrow> nat \<Rightarrow> nat list \<times> real list" where
  "np_histogram a nbins =
     (let (first_edge, last_edge) = outer_edges a;
          edges = np_linspace first_edge last_edge (nbins + 1)
      in (map (\<lambda>i. length (filter (in_bin edges nbins i) a)) [0..<nbins], edges))"

text \<open>\<open>build_similarity_histogram_response\<close>.\<close>

definition empty_response :: similarity_histogram_response where
  "empty_response =
     \<lparr>scores = [], histogram = \<lparr>bins = [], counts = [], bin_edges = []\<rparr>,
      statistics = \<lparr>stat_min = 0, stat_max = 0, stat_mean = 0, stat_median = 0\<rparr>,
      total_items = 0, committee_votes = None\<rparr>"

definition build_similarity_histogram_response ::
  "(int \<times> real) list \<Rightarrow> real list \<Rightarrow> nat \<Rightarrow> (int \<times> committee_prediction) list option \<Rightarrow>
   similarity_histogram_response" where
  "build_similarity_histogram_response scores_dict score_values n_items votes =
     (if length score_values = 0 then empty_response
      else
        (let (cnts, edges) = np_histogram score_values 60;
             centers = map (\<lambda>(a, b). float64 (float64 (a + b) / 2)) (zip (butlast edges) (tl edges))
         in \<lparr>scores = scores_dict,
             histogram = \<lparr>bins = centers, counts = cnts, bin_edges = edges\<rparr>,
             statistics = \<lparr>stat_min = np_min score_values, stat_max = np_max score_values,
                           stat_mean = np_mean score_values, stat_median = np_median score_values\<rparr>,
             total_items = n_items, committee_votes = votes\<rparr>))"

section \<open>Classification service\<close>

text \<open>\<open>DataService.get_metrics\<close>: the rows of the table whose \<open>block_id\<close> is among the ids.\<close>

definition get_metrics :: "data_service \<Rightarrow> int list \<Rightarrow> (int \<times> real option list) list option" where
  "get_metrics ds ids =
     (case metrics_frame ds of
        None \<Rightarrow> None
      | Some rows \<Rightarrow> Some (filter (\<lambda>row. fst row \<in> set ids) rows))"

text \<open>The matrix of the metric columns, nulls filled with \<open>0.0\<close>.\<close>

definition fill_null :: "real option \<Rightarrow> real" where
  "fill_null c = (case c of None \<Rightarrow> 0 | Some x \<Rightarrow> x)"

definition metric_matrix :: "(int \<times> real option list) list \<Rightarrow> real list list" where
  "metric_matrix rows = map (\<lambda>row. map fill_null (snd row)) rows"

text \<open>\<open>_extract_metrics\<close>.\<close>

definition extract_metrics :: "data_service \<Rightarrow> int list \<Rightarrow> (int list \<times> real list list) option" where
  "extract_metrics ds ids =
     (case get_metrics ds ids of
        None \<Rightarrow> None
      | Some metrics_df \<Rightarrow>
          if length metrics_df = 0 then None
          else if metric_columns ds = [] then None
          else Some (map fst metrics_df, metric_matrix metrics_df))"

text \<open>\<open>CLICK_WEIGHT if item.source == "click" else THRESHOLD_WEIGHT\<close>.\<close>

definition weight_of :: "('k, 'svm, 'rf, 'mlp, 'sc) env \<Rightarrow> source \<Rightarrow> real" where
  "weight_of E src = (if src = Click then CLICK_WEIGHT E else THRESHOLD_WEIGHT E)"

text \<open>
  One of the two loops over labelled items: each item is added to the id set of its list and
  its weight is written into the shared \<open>id_to_weight\<close> dictionary.
\<close>

fun label_loop ::
  "('k, 'svm, 'rf, 'mlp, 'sc) env \<Rightarrow> weighted_block_id list \<Rightarrow> int set \<times> (int \<rightharpoonup> real) \<Rightarrow>
   int set \<times> (int \<rightharpoonup> real)" where
  "label_loop E [] acc = acc"
| "label_loop E (item # items) (ids, id_to_weight) =
     label_loop E items
       (insert (item_id item) ids, id_to_weight(item_id item \<mapsto> weight_of E (item_source item)))"

text \<open>The loop that partitions the row indices: \<open>if\<close> selected, \<open>elif\<close> rejected.\<close>

fun partition_loop ::
  "int set \<Rightarrow> int set \<Rightarrow> (nat \<times> int) list \<Rightarrow> nat list \<times> nat list \<Rightarrow> nat list \<times> nat list" where
  "partition_loop selected_ids rejected_ids [] acc = acc"
| "partition_loop selected_ids rejected_ids ((i, bid) # rest) (sel_indices, rej_indices) =
     (if bid \<in> selected_ids
      then partition_loop selected_ids rejected_ids rest (sel_indices @ [i], rej_indices)
      else if bid \<in> rejected_ids
      then partition_loop selected_ids rejected_ids rest (sel_indices, rej_indices @ [i])
      else partition_loop selected_ids rejected_ids rest (sel_indices, rej_indices))"

text \<open>
  \<open>sorted\<close> on \<open>(id, source)\<close> tuples: by id, then by the source string,
  \<open>"click" < "threshold"\<close>.
\<close>

fun tuple_le :: "int \<times> source \<Rightarrow> int \<times> source \<Rightarrow> bool" where
  "tuple_le (i, s) (j, t) = (i < j \<or> (i = j \<and> (s = Click \<or> t = Threshold)))"

fun insert_tuple :: "int \<times> source \<Rightarrow> (int \<times> source) list \<Rightarrow> (int \<times> source) list" where
  "insert_tuple x [] = [x]"
| "insert_tuple x (y # ys) = (if tuple_le x y then x # y # ys else y # insert_tuple x ys)"

definition sorted_tuples :: "(int \<times> source) list \<Rightarrow> (int \<times> source) list" where
  "sorted_tuples xs = foldr insert_tuple xs []"

text \<open>\<open>_cache_key\<close>.\<close>

definition cache_key :: "('k, 'svm, 'rf, 'mlp, 'sc) env \<Rightarrow> weighted_block_id list \<Rightarrow> weighted_block_id list \<Rightarrow> 'k" where
  "cache_key E selected rejected =
     (let sel = sorted_tuples (map (\<lambda>i. (item_id i, item_source i)) selected);
          rej = sorted_tuples (map (\<lambda>i. (item_id i, item_source i)) rejected)
      in md5_key E sel rej)"

text \<open>
  The insertion into the cache on a miss: when the cache is full, the first key in iteration
  order is popped, then the new entry is stored.
\<close>

definition cache_store :: "('a \<times> 'b) list \<Rightarrow> 'a \<Rightarrow> 'b \<Rightarrow> ('a \<times> 'b) list" where
  "cache_store cache key v =
     (let cache' = (if length cache \<ge> max_cache_size then tl cache else cache)
      in dict_set cache' key v)"

text \<open>
  The first part of \<open>get_similarity_score_histogram\<close>: the id sets and the id-to-weight
  dictionary are filled from the selected items, then from the rejected items, and the row
  indices are partitioned.
\<close>

definition label_partition ::
  "('k, 'svm, 'rf, 'mlp, 'sc) env \<Rightarrow> similarity_histogram_request \<Rightarrow> int list \<Rightarrow>
   nat list \<times> nat list \<times> (int \<rightharpoonup> real)" where
  "label_partition E request block_ids_arr =
     (let (selected_ids, w1) = label_loop E (selected_items request) ({}, Map.empty);
          (rejected_ids, id_to_weight) = label_loop E (rejected_items request) ({}, w1);
          (sel_indices, rej_indices) =
             partition_loop selected_ids rejected_ids (enumerate 0 block_ids_arr) ([], [])
      in (sel_indices, rej_indices, id_to_weight))"

text \<open>\<open>id_to_weight.get(int(block_ids_arr[i]), CLICK_WEIGHT)\<close>.\<close>

definition sample_weight ::
  "('k, 'svm, 'rf, 'mlp, 'sc) env \<Rightarrow> (int \<rightharpoonup> real) \<Rightarrow> int list \<Rightarrow> nat \<Rightarrow> real" where
  "sample_weight E id_to_weight block_ids_arr i =
     (case id_to_weight (block_ids_arr ! i) of Some w \<Rightarrow> w | None \<Rightarrow> CLICK_WEIGHT E)"

text \<open>
  The cache check of \<open>get_similarity_score_histogram\<close>: a hit returns the cached pair of
  model and scaler; a miss trains the SVM and stores the pair.
\<close>

definition get_or_train ::
  "('k, 'svm, 'rf, 'mlp, 'sc) env \<Rightarrow> 'k \<Rightarrow> real list list \<Rightarrow> real list list \<Rightarrow> real list \<Rightarrow>
   real list \<Rightarrow> ('k, 'svm, 'rf, 'mlp, 'sc) service_state \<Rightarrow>
   ('svm \<times> 'sc) \<times> ('k, 'svm, 'rf, 'mlp, 'sc) service_state" where
  "get_or_train E key sel_vectors rej_vectors sel_weights rej_weights s =
     (case map_of (svm_cache s) key of
        Some entry \<Rightarrow> (entry, s)
      | None \<Rightarrow>
          (let (entry, s') = train_svm_model E sel_vectors rej_vectors
                               (Some sel_weights) (Some rej_weights) s
           in (entry, s'\<lparr>svm_cache := cache_store (svm_cache s') key entry\<rparr>)))"

text \<open>
  \<open>get_similarity_score_histogram\<close>: \<open>Inl\<close> is the exception raised, \<open>Inr\<close> the response
  with the state after the request.
\<close>

definition get_similarity_score_histogram ::
  "('k, 'svm, 'rf, 'mlp, 'sc) env \<Rightarrow> data_service \<Rightarrow> similarity_histogram_request \<Rightarrow>
   ('k, 'svm, 'rf, 'mlp, 'sc) service_state \<Rightarrow>
   py_error + (similarity_histogram_response \<times> ('k, 'svm, 'rf, 'mlp, 'sc) service_state)" where
  "get_similarity_score_histogram E ds request s =
     (if \<not> ready ds then Inl (RuntimeError ''DataService not ready'')
      else case extract_metrics ds (block_ids request) of
        None \<Rightarrow> Inr (empty_response, s)
      | Some (block_ids_arr, metrics_matrix) \<Rightarrow>
          (let (sel_indices, rej_indices, id_to_weight) = label_partition E request block_ids_arr
           in if sel_indices = [] \<or> rej_indices = [] then Inr (empty_response, s)
              else
                (let sel_vectors = map (\<lambda>i. metrics_matrix ! i) sel_indices;
                     rej_vectors = map (\<lambda>i. metrics_matrix ! i) rej_indices;
                     sel_weights = map (sample_weight E id_to_weight block_ids_arr) sel_indices;
                     rej_weights = map (sample_weight E id_to_weight block_ids_arr) rej_indices;
                     key = cache_key E (selected_items request) (rejected_items request);
                     ((model, scaler), s1) =
                        get_or_train E key sel_vectors rej_vectors sel_weights rej_weights s;
                     svm_scores = score_with_svm E model scaler metrics_matrix;
                     scores_dict = dict_of_pairs (zip block_ids_arr svm_scores);
                     X_train = sel_vectors @ rej_vectors;
                     y_train = replicate (length sel_vectors) 1 @ replicate (length rej_vectors) 0;
                     sample_weights = sel_weights @ rej_weights;
                     ((rf, mlp, committee_scaler), s2) =
                        train_committee E X_train y_train (Some sample_weights) s1
                 in if rf \<noteq> None \<or> mlp \<noteq> None
                    then
                      (let X_scaled = transform E scaler metrics_matrix
                       in case predict_with_committee E X_scaled svm_scores rf mlp committee_scaler of
                            Inl e \<Rightarrow> Inl e
                          | Inr preds \<Rightarrow>
                              Inr (build_similarity_histogram_response scores_dict (map snd scores_dict)
                                     (length scores_dict) (Some (get_vote_info_dict block_ids_arr preds)),
                                   s2))
                    else Inr (build_similarity_histogram_response scores_dict (map snd scores_dict)
                                (length scores_dict) None, s2))))"

section \<open>Cold-start service\<close>

text \<open>\<open>np.argmax\<close>: the index of the first occurrence of the maximum.\<close>

fun argmax :: "real list \<Rightarrow> nat" where
  "argmax [] = 0"
| "argmax [x] = 0"
| "argmax (x # y # ys) =
     (let r = argmax (y # ys) in if x < (y # ys) ! r then Suc r else 0)"

text \<open>The Euclidean norm of the difference of two rows, and the matrix of all of them
  (\<open>dist\<close> in the source, \<open>dmat\<close> below).\<close>

definition row_dist :: "real list \<Rightarrow> real list \<Rightarrow> real" where
  "row_dist u v = sqrt (sum_list (map (\<lambda>(a, b). (a - b)\<^sup>2) (zip u v)))"

definition dist_matrix :: "real list list \<Rightarrow> real list list" where
  "dist_matrix X = map (\<lambda>u. map (\<lambda>v. row_dist u v) X) X"

text \<open>
  One round of the selection loop: \<open>dist[selected].min(axis=0)\<close>, the selected entries set
  to \<open>-1\<close>, and the argmax of the result.
\<close>

definition next_point :: "real list list \<Rightarrow> nat list \<Rightarrow> nat" where
  "next_point dmat selected =
     (let min_dists = map (\<lambda>c. min_list (map (\<lambda>r. dmat ! r ! c) selected)) [0..<length dmat];
          min_dists' = fold (\<lambda>r md. md[r := -1]) selected min_dists
      in argmax min_dists')"

function ks_loop :: "real list list \<Rightarrow> int \<Rightarrow> nat list \<Rightarrow> nat list" where
  "ks_loop dmat n selected =
     (if int (length selected) < n then ks_loop dmat n (selected @ [next_point dmat selected])
      else selected)"
  by pat_completeness auto
termination
  by (relation "measure (\<lambda>(dmat, n, selected). nat (n - int (length selected)))") auto

declare ks_loop.simps [simp del]

text \<open>
  \<open>_kennard_stone\<close>. \<open>np.argmax\<close> of an empty matrix raises \<open>ValueError\<close>;
  \<open>np.unravel_index\<close> turns the flat index into row and column.
\<close>

definition kennard_stone :: "real list list \<Rightarrow> int \<Rightarrow> py_error + nat list" where
  "kennard_stone X n =
     (let n_samples = length X
      in if n \<ge> int n_samples then Inr [0..<n_samples]
         else if n_samples = 0 then Inl (ValueError ''attempt to get argmax of an empty sequence'')
         else
           (let dmat = dist_matrix X;
                a = argmax (concat dmat);
                i = a div n_samples;
                j = a mod n_samples
            in Inr (ks_loop dmat n [i, j])))"

text \<open>\<open>_random_fallback\<close>: \<open>random.sample\<close> raises \<open>ValueError\<close> on a negative size.\<close>

definition random_fallback :: "('k, 'svm, 'rf, 'mlp, 'sc) env \<Rightarrow> int list \<Rightarrow> int \<Rightarrow> py_error + int list" where
  "random_fallback E ids n =
     (let m = min n (int (length ids))
      in if m < 0 then Inl (ValueError ''Sample larger than population or is negative'')
         else Inr (random_sample_42 E ids (nat m)))"

text \<open>\<open>get_suggestions\<close>.\<close>

definition get_suggestions ::
  "('k, 'svm, 'rf, 'mlp, 'sc) env \<Rightarrow> data_service \<Rightarrow> int list \<Rightarrow> int \<Rightarrow> py_error + int list" where
  "get_suggestions E ds ids num_suggestions =
     (case get_metrics ds ids of
        None \<Rightarrow> random_fallback E ids num_suggestions
      | Some metrics_df \<Rightarrow>
          if length metrics_df = 0 \<or> metric_columns ds = [] then random_fallback E ids num_suggestions
          else
            (let id_list = map fst metrics_df;
                 matrix = metric_matrix metrics_df;
                 (scaler, scaled) = fit_transform E matrix;
                 n_select = min num_suggestions (int (length id_list))
             in case kennard_stone scaled n_select of
                  Inl e \<Rightarrow> Inl e
                | Inr indices \<Rightarrow> Inr (map (\<lambda>i. id_list ! i) indices)))"

section \<open>Example instances\<close>

text \<open>
  An environment for concrete evaluations: the scaler is the identity, the SVM score of a row
  is the sum of its entries, the forest votes 1 on a row whose entries sum to more than 1,
  and the training of the neural network always fails.
\<close>

definition example_env :: "((int \<times> source) list \<times> (int \<times> source) list, unit, unit, unit, unit) env" where
  "example_env =
     \<lparr>CLICK_WEIGHT = 1, THRESHOLD_WEIGHT = 1 / 2,
      md5_key = (\<lambda>sel rej. (sel, rej)),
      scaler_fit = (\<lambda>X. ()),
      scaler_transform = (\<lambda>sc row. row),
      svc_fit = (\<lambda>X y w. ()),
      decision_function = (\<lambda>m row. sum_list row),
      rf_fit = (\<lambda>n_est depth X y w. Inr ()),
      rf_predict = (\<lambda>rf row. if sum_list row > 1 then 1 else 0),
      mlp_fit = (\<lambda>hidden X y w. Inl ''diverged''),
      mlp_predict = (\<lambda>mlp row. 0),
      random_sample_42 = (\<lambda>ids k. take k ids)\<rparr>"

text \<open>
  A ready data service with one metric column and six blocks, a request that selects the
  blocks 4, 5, 6 and rejects the blocks 1, 2, 3, the state of a fresh service (as
  \<open>__init__\<close> leaves it), and a state whose cache already holds the key of the request.
\<close>

definition example_ds :: data_service where
  "example_ds =
     \<lparr>ready = True,
      metrics_frame = Some [(1, [Some 0]), (2, [Some 0]), (3, [None]),
                            (4, [Some 4]), (5, [Some 4]), (6, [Some 4])],
      metric_columns = [''loc'']\<rparr>"

definition example_request :: similarity_histogram_request where
  "example_request =
     \<lparr>selected_items = [\<lparr>item_id = 4, item_source = Click\<rparr>, \<lparr>item_id = 5, item_source = Click\<rparr>,
                         \<lparr>item_id = 6, item_source = Threshold\<rparr>],
      rejected_items = [\<lparr>item_id = 1, item_source = Click\<rparr>, \<lparr>item_id = 2, item_source = Click\<rparr>,
                         \<lparr>item_id = 3, item_source = Threshold\<rparr>],
      block_ids = [1, 2, 3, 4, 5, 6]\<rparr>"

definition init_state :: "('k, 'svm, 'rf, 'mlp, 'sc) service_state" where
  "init_state = \<lparr>svm_cache = [], cs_rf_model = None, cs_mlp_model = None, cs_scaler = None, fits = []\<rparr>"

definition warm_state ::
  "((int \<times> source) list \<times> (int \<times> source) list, unit, unit, unit, unit) service_state" where
  "warm_state =
     init_state\<lparr>svm_cache :=
       [(cache_key example_env (selected_items example_request) (rejected_items example_request),
         ((), ()))]\<rparr>"

text \<open>
  scikit-learn's \<open>StandardScaler\<close> as documented: \<open>fit\<close> stores the mean and the
  (population) standard deviation of every column, a standard deviation of zero being
  replaced by 1; \<open>transform\<close> maps \<open>x\<close> to \<open>(x - mean) / scale\<close>.
\<close>

definition column :: "real list list \<Rightarrow> nat \<Rightarrow> real list" where
  "column X c = map (\<lambda>row. row ! c) X"

definition column_mean :: "real list \<Rightarrow> real" where
  "column_mean col = sum_list col / real (length col)"

definition standard_fit :: "real list list \<Rightarrow> real list \<times> real list" where
  "standard_fit X =
     (let cols = map (column X) [0..<length (hd X)];
          means = map column_mean cols;
          sds = map (\<lambda>col. sqrt (column_mean (map (\<lambda>x. (x - column_mean col)\<^sup>2) col))) cols
      in (means, map (\<lambda>sd. if sd = 0 then 1 else sd) sds))"

definition standard_transform :: "real list \<times> real list \<Rightarrow> real list \<Rightarrow> real list" where
  "standard_transform sc row =
     map (\<lambda>(x, mean, scale). (x - mean) / scale) (zip row (zip (fst sc) (snd sc)))"

text \<open>
  An environment with the standard scaler, in which the forest votes 1 on a row whose
  entries sum to more than 0 (it separates training rows standardised to \<open>1\<close> and \<open>-1\<close>).
\<close>

definition standard_env ::
  "((int \<times> source) list \<times> (int \<times> source) list, unit, unit, unit, real list \<times> real list) env" where
  "standard_env =
     \<lparr>CLICK_WEIGHT = 1, THRESHOLD_WEIGHT = 1 / 2,
      md5_key = (\<lambda>sel rej. (sel, rej)),
      scaler_fit = standard_fit,
      scaler_transform = standard_transform,
      svc_fit = (\<lambda>X y w. ()),
      decision_function = (\<lambda>m row. sum_list row),
      rf_fit = (\<lambda>n_est depth X y w. Inr ()),
      rf_predict = (\<lambda>rf row. if sum_list row > 0 then 1 else 0),
      mlp_fit = (\<lambda>hidden X y w. Inl ''diverged''),
      mlp_predict = (\<lambda>mlp row. 0),
      random_sample_42 = (\<lambda>ids k. take k ids)\<rparr>"

section \<open>Votes and entropy of the committee\<close>

lemma entropy_three_votes:
  assumes "a = 0 \<or> a = 1"
  shows "(entropy_of_votes [a, b, c] = 0 \<longleftrightarrow> (a = b \<and> b = c)) \<and>
         0 \<le> entropy_of_votes [a, b, c] \<and> entropy_of_votes [a, b, c] \<le> log 2 3"
proof -
  define L :: real where "L = log 2 3"
  have L: "1 < L" by (simp add: L_def)
  have third: "log 2 (1 / 3) = - L" by (simp add: L_def log_divide)
  have two_thirds: "log 2 (2 / 3) = 1 - L" by (simp add: L_def log_divide)
  have *: "(entropy_of_votes [a, b, c] = 0 \<longleftrightarrow> (a = b \<and> b = c)) \<and>
         0 \<le> entropy_of_votes [a, b, c] \<and> entropy_of_votes [a, b, c] \<le> L"
  proof -
    consider "b = 0" | "b = 1" | "b \<noteq> 0 \<and> b \<noteq> 1" by blast
    then show ?thesis
    proof cases
      case 1
      consider "c = 0" | "c = 1" | "c \<noteq> 0 \<and> c \<noteq> 1" by blast
      then show ?thesis using 1 assms L
        by cases (auto simp: entropy_of_votes_def third two_thirds field_simps)
    next
      case 2
      consider "c = 0" | "c = 1" | "c \<noteq> 0 \<and> c \<noteq> 1" by blast
      then show ?thesis using 2 assms L
        by cases (auto simp: entropy_of_votes_def third two_thirds field_simps)
    next
      case 3
      consider "c = 0" | "c = 1" | "c \<noteq> 0 \<and> c \<noteq> 1" by blast
      then show ?thesis using 3 assms L
        by cases (auto simp: entropy_of_votes_def third two_thirds field_simps)
    qed
  qed
  then show ?thesis by (simp add: L_def)
qed

lemma svm_preds_nth:
  "i < length svm_scores \<Longrightarrow> svm_preds_of svm_scores ! i = (if svm_scores ! i > 0 then 1 else 0)"
  by (simp add: svm_preds_of_def)

lemma entropy_agree: "a = 0 \<or> a = 1 \<Longrightarrow> entropy_of_votes [a, a, a] = 0"
  using entropy_three_votes[of a a a] by simp

lemma predict_with_committee_length:
  assumes "predict_with_committee E X svm_scores rf_model mlp_model scaler = Inr preds"
  shows "length preds = length svm_scores"
  using assms by (auto simp: predict_with_committee_def Let_def split: if_splits)

lemma predict_with_committee_nth:
  assumes "predict_with_committee E X svm_scores rf_model mlp_model scaler = Inr preds"
    and "i < length svm_scores"
  shows "\<exists>b c. preds ! i =
           \<lparr>svm_prediction = (if svm_scores ! i > 0 then 1 else 0), rf_prediction = b,
            mlp_prediction = c,
            vote_entropy = entropy_of_votes [if svm_scores ! i > 0 then 1 else 0, b, c]\<rparr> \<and>
           (rf_model = None \<and> mlp_model = None \<longrightarrow>
              b = (if svm_scores ! i > 0 then 1 else 0) \<and> c = (if svm_scores ! i > 0 then 1 else 0))"
proof (cases "rf_model = None \<and> mlp_model = None")
  case True
  with assms have "preds ! i =
      \<lparr>svm_prediction = svm_preds_of svm_scores ! i, rf_prediction = svm_preds_of svm_scores ! i,
       mlp_prediction = svm_preds_of svm_scores ! i, vote_entropy = 0\<rparr>"
    by (auto simp: predict_with_committee_def Let_def)
  with True assms(2) show ?thesis
    by (simp add: svm_preds_nth entropy_agree)
next
  case False
  with assms obtain rf_preds mlp_preds where "preds ! i =
      \<lparr>svm_prediction = svm_preds_of svm_scores ! i, rf_prediction = rf_preds ! i,
       mlp_prediction = mlp_preds ! i,
       vote_entropy = entropy_of_votes [svm_preds_of svm_scores ! i, rf_preds ! i, mlp_preds ! i]\<rparr>"
    by (auto simp: predict_with_committee_def Let_def split: if_splits)
  with False assms(2) show ?thesis
    by (auto simp: svm_preds_nth)
qed

text \<open>
  C3. Every item that \<open>predict_with_committee\<close> scores gets a record. Its SVM vote is 1 if
  the SVM score is positive and 0 otherwise. Its entropy is the sum of
  \<open>-(c/3) * log2(c/3)\<close> over the counts \<open>c > 0\<close> of the votes for 0 and for 1 among the three
  recorded votes. The entropy is 0 exactly when the three votes agree; when the forest and
  the network are both absent, the three votes are the SVM vote and the entropy is 0. The
  entropy lies between 0 and \<open>log2(3)\<close>.
\<close>

theorem committee_votes_and_entropy:
  assumes "predict_with_committee E X svm_scores rf_model mlp_model scaler = Inr preds"
    and "i < length svm_scores"
  shows "length preds = length svm_scores \<and>
    svm_prediction (preds ! i) = (if svm_scores ! i > 0 then 1 else 0) \<and>
    (let votes = [svm_prediction (preds ! i), rf_prediction (preds ! i), mlp_prediction (preds ! i)];
         c0 = count_list votes 0; c1 = count_list votes 1
     in vote_entropy (preds ! i) =
          (if c0 > 0 then - (real c0 / 3) * log 2 (real c0 / 3) else 0) +
          (if c1 > 0 then - (real c1 / 3) * log 2 (real c1 / 3) else 0)) \<and>
    (vote_entropy (preds ! i) = 0 \<longleftrightarrow>
       svm_prediction (preds ! i) = rf_prediction (preds ! i) \<and>
       rf_prediction (preds ! i) = mlp_prediction (preds ! i)) \<and>
    (rf_model = None \<and> mlp_model = None \<longrightarrow>
       rf_prediction (preds ! i) = svm_prediction (preds ! i) \<and>
       mlp_prediction (preds ! i) = svm_prediction (preds ! i) \<and>
       vote_entropy (preds ! i) = 0) \<and>
    0 \<le> vote_entropy (preds ! i) \<and> vote_entropy (preds ! i) \<le> log 2 3"
proof -
  define a :: int where "a = (if svm_scores ! i > 0 then 1 else 0)"
  have a01: "a = 0 \<or> a = 1" by (simp add: a_def)
  from predict_with_committee_nth[OF assms] obtain b c where
    p: "preds ! i = \<lparr>svm_prediction = a, rf_prediction = b, mlp_prediction = c,
                     vote_entropy = entropy_of_votes [a, b, c]\<rparr>"
    and absent: "rf_model = None \<and> mlp_model = None \<longrightarrow> b = a \<and> c = a"
    unfolding a_def by blast
  note e = entropy_three_votes[OF a01, of b c]
  have formula: "entropy_of_votes [a, b, c] =
      (if count_list [a, b, c] 0 > 0
       then - (real (count_list [a, b, c] 0) / 3) * log 2 (real (count_list [a, b, c] 0) / 3) else 0) +
      (if count_list [a, b, c] 1 > 0
       then - (real (count_list [a, b, c] 1) / 3) * log 2 (real (count_list [a, b, c] 1) / 3) else 0)"
    unfolding entropy_of_votes_def Let_def by simp
  have len: "length preds = length svm_scores"
    by (rule predict_with_committee_length[OF assms(1)])
  have agree: "rf_model = None \<and> mlp_model = None \<longrightarrow> entropy_of_votes [a, b, c] = 0"
    using absent e by auto
  show ?thesis
    unfolding p Let_def using len e formula absent agree
    by (simp add: a_def)
qed

theorem committee_votes_and_entropy_witness:
  "predict_with_committee example_env [[1 / 2]] [1 / 2] (Some ()) None None =
     Inr [\<lparr>svm_prediction = 1, rf_prediction = 0, mlp_prediction = 1,
           vote_entropy = entropy_of_votes [1, 0, 1]\<rparr>] \<and>
   (0::nat) < length [1 / 2 :: real] \<and>
   entropy_of_votes [1, 0, 1] \<noteq> 0 \<and>
   0 \<le> entropy_of_votes [1, 0, 1] \<and> entropy_of_votes [1, 0, 1] \<le> log 2 3"
proof -
  have h: "predict_with_committee example_env [[1 / 2]] [1 / 2] (Some ()) None None =
     Inr [\<lparr>svm_prediction = 1, rf_prediction = 0, mlp_prediction = 1,
           vote_entropy = entropy_of_votes [1, 0, 1]\<rparr>]"
    by (simp add: predict_with_committee_def example_env_def transform_def svm_preds_of_def)
  have i: "(0::nat) < length [1 / 2 :: real]" by simp
  from committee_votes_and_entropy[OF h i] show ?thesis using h by simp
qed

section \<open>Labels, partition and weights\<close>

lemma label_loop_append:
  "label_loop E (xs @ ys) acc = label_loop E ys (label_loop E xs acc)"
  by (induction E xs acc rule: label_loop.induct) auto

lemma label_loop_ids:
  "fst (label_loop E items (ids, w)) = ids \<union> item_id ` set items"
  by (induction items arbitrary: ids w) auto

lemma label_loop_weight_other:
  "b \<notin> item_id ` set items \<Longrightarrow> snd (label_loop E items (ids, w)) b = w b"
  by (induction items arbitrary: ids w) auto

lemma label_loop_weight_last:
  assumes "items = pre @ [item] @ post" and "item_id item \<notin> item_id ` set post"
  shows "snd (label_loop E items (ids, w)) (item_id item) = Some (weight_of E (item_source item))"
proof -
  obtain ids1 w1 where 1: "label_loop E pre (ids, w) = (ids1, w1)" by (cases "label_loop E pre (ids, w)")
  have "label_loop E items (ids, w) =
        label_loop E post (insert (item_id item) ids1,
                           w1(item_id item \<mapsto> weight_of E (item_source item)))"
    using 1 by (simp add: assms(1) label_loop_append)
  then show ?thesis
    by (simp add: label_loop_weight_other[OF assms(2)])
qed

lemma partition_loop_sets:
  "set (fst (partition_loop S R ps (sel, rej))) = set sel \<union> {i. \<exists>bid. (i, bid) \<in> set ps \<and> bid \<in> S} \<and>
   set (snd (partition_loop S R ps (sel, rej))) =
     set rej \<union> {i. \<exists>bid. (i, bid) \<in> set ps \<and> bid \<notin> S \<and> bid \<in> R}"
proof (induction S R ps "(sel, rej)" arbitrary: sel rej rule: partition_loop.induct)
  case (1 S R)
  then show ?case by simp
next
  case (2 S R i bid rest sel rej)
  then show ?case by (auto split: if_splits)
qed

lemma label_partition_sets:
  assumes "label_partition E request ids = (sel_indices, rej_indices, id_to_weight)"
  shows "set sel_indices = {i. i < length ids \<and> ids ! i \<in> item_id ` set (selected_items request)}"
    and "set rej_indices = {i. i < length ids \<and> ids ! i \<notin> item_id ` set (selected_items request)
                               \<and> ids ! i \<in> item_id ` set (rejected_items request)}"
    and "id_to_weight = snd (label_loop E (rejected_items request)
                          ({}, snd (label_loop E (selected_items request) ({}, Map.empty))))"
proof -
  obtain S w1 where a: "label_loop E (selected_items request) ({}, Map.empty) = (S, w1)"
    by (cases "label_loop E (selected_items request) ({}, Map.empty)")
  obtain R w2 where b: "label_loop E (rejected_items request) ({}, w1) = (R, w2)"
    by (cases "label_loop E (rejected_items request) ({}, w1)")
  have S: "S = item_id ` set (selected_items request)"
    using label_loop_ids[of E "selected_items request" "{}" Map.empty] a by simp
  have R: "R = item_id ` set (rejected_items request)"
    using label_loop_ids[of E "rejected_items request" "{}" w1] b by simp
  from assms a b have p: "partition_loop S R (enumerate 0 ids) ([], []) = (sel_indices, rej_indices)"
    and w: "id_to_weight = w2"
    by (auto simp: label_partition_def Let_def split: prod.splits)
  from partition_loop_sets[of S R "enumerate 0 ids" "[]" "[]"] p
  show "set sel_indices = {i. i < length ids \<and> ids ! i \<in> item_id ` set (selected_items request)}"
    and "set rej_indices = {i. i < length ids \<and> ids ! i \<notin> item_id ` set (selected_items request)
                               \<and> ids ! i \<in> item_id ` set (rejected_items request)}"
    by (auto simp: in_set_enumerate_eq S R)
  show "id_to_weight = snd (label_loop E (rejected_items request)
                          ({}, snd (label_loop E (selected_items request) ({}, Map.empty))))"
    using a b w by simp
qed

text \<open>
  C10. An identifier that is both selected and rejected: every row carrying it is put among
  the positive rows and not among the negative rows, and the weight used for the row is the
  weight of the tier of the identifier's last entry in the rejected list, since the loop
  over the rejected items writes the weight dictionary after the loop over the selected ones.
\<close>

theorem overlap_is_positive_with_rejected_weight:
  assumes "label_partition E request ids = (sel_indices, rej_indices, id_to_weight)"
    and "i < length ids"
    and "ids ! i \<in> item_id ` set (selected_items request)"
    and "rejected_items request = pre @ [item] @ post"
    and "item_id item = ids ! i"
    and "ids ! i \<notin> item_id ` set post"
  shows "i \<in> set sel_indices \<and> i \<notin> set rej_indices \<and>
         sample_weight E id_to_weight ids i = weight_of E (item_source item)"
proof -
  note sets = label_partition_sets[OF assms(1)]
  have "id_to_weight (item_id item) = Some (weight_of E (item_source item))"
    unfolding sets(3) using label_loop_weight_last[OF assms(4)] assms(5,6) by simp
  then show ?thesis
    using assms(2,3,5) by (simp add: sets(1,2) sample_weight_def)
qed

theorem overlap_is_positive_with_rejected_weight_witness:
  "(0::nat) < length [7::int] \<and>
   [7::int] ! 0 \<in> item_id ` set [\<lparr>item_id = 7, item_source = Click\<rparr>] \<and>
   0 \<in> set (fst (label_partition example_env
       \<lparr>selected_items = [\<lparr>item_id = 7, item_source = Click\<rparr>],
        rejected_items = [\<lparr>item_id = 7, item_source = Threshold\<rparr>], block_ids = [7]\<rparr> [7])) \<and>
   0 \<notin> set (fst (snd (label_partition example_env
       \<lparr>selected_items = [\<lparr>item_id = 7, item_source = Click\<rparr>],
        rejected_items = [\<lparr>item_id = 7, item_source = Threshold\<rparr>], block_ids = [7]\<rparr> [7]))) \<and>
   sample_weight example_env (snd (snd (label_partition example_env
       \<lparr>selected_items = [\<lparr>item_id = 7, item_source = Click\<rparr>],
        rejected_items = [\<lparr>item_id = 7, item_source = Threshold\<rparr>], block_ids = [7]\<rparr> [7]))) [7] 0
     = 1 / 2"
proof -
  let ?r = "\<lparr>selected_items = [\<lparr>item_id = 7, item_source = Click\<rparr>],
             rejected_items = [\<lparr>item_id = 7, item_source = Threshold\<rparr>], block_ids = [7]\<rparr>"
  let ?lp = "label_partition example_env ?r [7]"
  have 1: "?lp = (fst ?lp, fst (snd ?lp), snd (snd ?lp))" by simp
  have 2: "(0::nat) < length [7::int]" by simp
  have 3: "[7::int] ! 0 \<in> item_id ` set (selected_items ?r)" by simp
  have 4: "rejected_items ?r = [] @ [\<lparr>item_id = 7, item_source = Threshold\<rparr>] @ []" by simp
  have 5: "item_id \<lparr>item_id = 7, item_source = Threshold\<rparr> = [7::int] ! 0" by simp
  have 6: "[7::int] ! 0 \<notin> item_id ` set ([] :: weighted_block_id list)" by simp
  from overlap_is_positive_with_rejected_weight[OF 1 2 3 4 5 6]
  show ?thesis by (simp add: weight_of_def example_env_def)
qed

section \<open>The score operation\<close>

lemma count_list_replicate_eq: "count_list (replicate n x) y = (if x = y then n else 0)"
  by (induction n) auto

lemma count_labels:
  "count_list (replicate a (1::int) @ replicate b 0) 1 = a"
  "count_list (replicate a (1::int) @ replicate b 0) 0 = b"
  by (simp_all add: count_list_replicate_eq)

lemma train_rf_result:
  "train_rf E X y w n s =
     (case rf_fit E (max 10 (min 100 (n div 2))) (min 5 (max 2 (nat \<lfloor>log 2 (real (n + 1))\<rfloor>))) X y w of
        Inr rf \<Rightarrow> Some rf | Inl e \<Rightarrow> None,
      s\<lparr>fits := fits s @ [Fit_RF]\<rparr>)"
  by (simp add: train_rf_def Let_def split: sum.splits)

lemma train_mlp_result:
  "train_mlp E X y w n s =
     (case mlp_fit E (if n < 20 then [16] else [32, 16]) X y w of
        Inr mlp \<Rightarrow> Some mlp | Inl e \<Rightarrow> None,
      s\<lparr>fits := fits s @ [Fit_MLP]\<rparr>)"
  by (simp add: train_mlp_def Let_def split: sum.splits)

lemma train_committee_small:
  "count_list y 1 < 3 \<or> count_list y 0 < 3 \<Longrightarrow>
   train_committee E X y w s = ((None, None, None), s)"
  by (simp add: train_committee_def MIN_SAMPLES_PER_CLASS_def)

lemma train_committee_state:
  "svm_cache (snd (train_committee E X y w s)) = svm_cache s \<and>
   fits (snd (train_committee E X y w s)) =
     fits s @ (if count_list y 1 < 3 \<or> count_list y 0 < 3 then [] else [Fit_RF, Fit_MLP])"
  by (simp add: train_committee_def MIN_SAMPLES_PER_CLASS_def Let_def train_rf_result
      train_mlp_result split: prod.splits)

lemma get_or_train_hit:
  "map_of (svm_cache s) key = Some entry \<Longrightarrow> get_or_train E key sv rv sw rw s = (entry, s)"
  by (simp add: get_or_train_def)

lemma get_or_train_miss:
  "map_of (svm_cache s) key = None \<Longrightarrow>
   \<exists>entry. get_or_train E key sv rv sw rw s =
     (entry, s\<lparr>fits := fits s @ [Fit_SVC], svm_cache := cache_store (svm_cache s) key entry\<rparr>)"
  by (simp add: get_or_train_def train_svm_model_def Let_def split: prod.splits)

lemma predict_with_committee_total:
  "length svm_scores \<le> length X \<Longrightarrow>
   \<exists>preds. predict_with_committee E X svm_scores rf mlp sc = Inr preds"
  by (simp add: predict_with_committee_def Let_def)

lemma score_lengths:
  "length (score_with_svm E model scaler M) = length M" "length (transform E scaler M) = length M"
  by (simp_all add: score_with_svm_def transform_def)

lemma get_sim_nondegenerate:
  assumes "ready ds"
    and "extract_metrics ds (block_ids request) = Some (ids, M)"
    and "label_partition E request ids = (sel, rej, w)"
    and "sel \<noteq> []" and "rej \<noteq> []"
    and "get_or_train E (cache_key E (selected_items request) (rejected_items request))
           (map (\<lambda>i. M ! i) sel) (map (\<lambda>i. M ! i) rej)
           (map (sample_weight E w ids) sel) (map (sample_weight E w ids) rej) s
         = ((model, scaler), s1)"
    and "train_committee E (map (\<lambda>i. M ! i) sel @ map (\<lambda>i. M ! i) rej)
           (replicate (length sel) 1 @ replicate (length rej) 0)
           (Some (map (sample_weight E w ids) sel @ map (sample_weight E w ids) rej)) s1
         = ((rf, mlp, csc), s2)"
  shows "\<exists>votes preds.
     predict_with_committee E (transform E scaler M) (score_with_svm E model scaler M) rf mlp csc
       = Inr preds \<and>
     votes = (if rf \<noteq> None \<or> mlp \<noteq> None then Some (get_vote_info_dict ids preds) else None) \<and>
     get_similarity_score_histogram E ds request s =
       Inr (build_similarity_histogram_response
              (dict_of_pairs (zip ids (score_with_svm E model scaler M)))
              (map snd (dict_of_pairs (zip ids (score_with_svm E model scaler M))))
              (length (dict_of_pairs (zip ids (score_with_svm E model scaler M)))) votes, s2)"
proof -
  obtain preds where p:
    "predict_with_committee E (transform E scaler M) (score_with_svm E model scaler M) rf mlp csc
       = Inr preds"
    using predict_with_committee_total[where E = E and rf = rf and mlp = mlp and sc = csc
        and svm_scores = "score_with_svm E model scaler M" and X = "transform E scaler M"]
    by (auto simp: score_lengths)
  show ?thesis
    using assms p
    by (simp add: get_similarity_score_histogram_def Let_def)
qed

lemma dict_set_length: "length (dict_set d k v) \<le> Suc (length d)"
  by (induction d k v rule: dict_set.induct) auto

lemma dict_set_fresh: "k \<notin> fst ` set d \<Longrightarrow> dict_set d k v = d @ [(k, v)]"
  by (induction d k v rule: dict_set.induct) auto

lemma dict_set_not_Nil: "dict_set d k v \<noteq> []"
  by (cases d) (auto split: if_splits)

lemma cache_store_length:
  "length c \<le> max_cache_size \<Longrightarrow> length (cache_store c k v) \<le> max_cache_size"
proof -
  assume a: "length c \<le> max_cache_size"
  show ?thesis
  proof (cases "length c \<ge> max_cache_size")
    case True
    then have "c \<noteq> []" by (auto simp: max_cache_size_def)
    then have "Suc (length (tl c)) = length c" by (cases c) auto
    with a True show ?thesis
      using dict_set_length[of "tl c" k v] by (simp add: cache_store_def)
  next
    case False
    then show ?thesis
      using dict_set_length[of c k v] by (simp add: cache_store_def)
  qed
qed

lemma cache_store_fresh:
  assumes "k \<notin> fst ` set c"
  shows "cache_store c k v = (if length c \<ge> max_cache_size then tl c else c) @ [(k, v)]"
proof -
  have "k \<notin> fst ` set (tl c)" using assms by (cases c) auto
  with assms show ?thesis by (simp add: cache_store_def dict_set_fresh)
qed

lemma get_or_train_cache_length:
  assumes "length (svm_cache s) \<le> max_cache_size"
  shows "length (svm_cache (snd (get_or_train E key sv rv sw rw s))) \<le> max_cache_size"
proof (cases "map_of (svm_cache s) key")
  case None
  from get_or_train_miss[OF None, of E sv rv sw rw] obtain entry where
    "get_or_train E key sv rv sw rw s =
      (entry, s\<lparr>fits := fits s @ [Fit_SVC], svm_cache := cache_store (svm_cache s) key entry\<rparr>)"
    by blast
  then show ?thesis using cache_store_length[OF assms] by simp
next
  case (Some entry)
  then show ?thesis using assms by (simp add: get_or_train_hit)
qed

lemma get_or_train_keys_fresh:
  assumes "key \<notin> fst ` set (svm_cache s)"
  shows "map fst (svm_cache (snd (get_or_train E key sv rv sw rw s))) =
         (if length (svm_cache s) \<ge> max_cache_size then tl (map fst (svm_cache s))
          else map fst (svm_cache s)) @ [key]"
proof -
  have None: "map_of (svm_cache s) key = None"
    using assms by (simp add: map_of_eq_None_iff)
  from get_or_train_miss[OF None, of E sv rv sw rw] obtain entry where
    "get_or_train E key sv rv sw rw s =
      (entry, s\<lparr>fits := fits s @ [Fit_SVC], svm_cache := cache_store (svm_cache s) key entry\<rparr>)"
    by blast
  then show ?thesis
    by (simp add: cache_store_fresh[OF assms] map_tl)
qed

lemma fifo_keys:
  assumes "distinct ks" and "svm_cache s0 = []"
  shows "map fst (svm_cache (foldl (\<lambda>s k. snd (get_or_train E k sv rv sw rw s)) s0 ks)) =
         drop (length ks - max_cache_size) ks"
  using assms(1)
proof (induction ks rule: rev_induct)
  case Nil
  then show ?case by (simp add: assms(2))
next
  case (snoc k ks)
  let ?s = "foldl (\<lambda>s k. snd (get_or_train E k sv rv sw rw s)) s0 ks"
  from snoc have IH: "map fst (svm_cache ?s) = drop (length ks - max_cache_size) ks"
    and k: "k \<notin> set ks" by auto
  have fresh: "k \<notin> fst ` set (svm_cache ?s)"
  proof -
    have "fst ` set (svm_cache ?s) = set (map fst (svm_cache ?s))" by simp
    also have "\<dots> \<subseteq> set ks" unfolding IH by (rule set_drop_subset)
    finally show ?thesis using k by blast
  qed
  have len: "length (svm_cache ?s) = length ks - (length ks - max_cache_size)"
    using arg_cong[OF IH, of length] by simp
  show ?case
  proof (cases "length ks \<ge> max_cache_size")
    case True
    then have full: "length (svm_cache ?s) \<ge> max_cache_size" using len by simp
    define m where "m = length ks - max_cache_size"
    have m: "Suc (length ks) - max_cache_size = Suc m" "Suc m \<le> length ks"
      using True by (simp_all add: m_def max_cache_size_def)
    have "map fst (svm_cache (snd (get_or_train E k sv rv sw rw ?s))) = tl (drop m ks) @ [k]"
      using full by (simp add: get_or_train_keys_fresh[OF fresh] IH m_def)
    also have "tl (drop m ks) = drop (Suc m) ks"
      by (simp add: drop_Suc tl_drop)
    also have "drop (Suc m) ks @ [k] = drop (Suc m) (ks @ [k])"
      using m(2) by simp
    finally show ?thesis
      by (simp add: m(1))
  next
    case False
    then have "\<not> length (svm_cache ?s) \<ge> max_cache_size" using len by simp
    then show ?thesis
      using False by (simp add: get_or_train_keys_fresh[OF fresh] IH)
  qed
qed

lemma extract_metrics_Some:
  assumes "extract_metrics ds cand = Some (ids, M)"
  shows "length ids = length M \<and> ids \<noteq> []"
  using assms
  by (auto simp: extract_metrics_def metric_matrix_def split: option.splits if_splits)

lemma extract_metrics_None:
  assumes "(case metrics_frame ds of None \<Rightarrow> True
            | Some rows \<Rightarrow> \<forall>row \<in> set rows. fst row \<notin> set cand) \<or> metric_columns ds = []"
  shows "extract_metrics ds cand = None"
proof (cases "metrics_frame ds")
  case None
  then show ?thesis by (simp add: extract_metrics_def get_metrics_def)
next
  case (Some rows)
  show ?thesis
  proof (cases "metric_columns ds = []")
    case True
    then show ?thesis by (simp add: extract_metrics_def split: option.splits)
  next
    case False
    with assms Some have "\<forall>row \<in> set rows. fst row \<notin> set cand" by simp
    then have "filter (\<lambda>row. fst row \<in> set cand) rows = []" by (simp add: filter_empty_conv)
    then show ?thesis using Some by (simp add: extract_metrics_def get_metrics_def)
  qed
qed

lemma foldl_dict_set_not_Nil:
  "d \<noteq> [] \<or> kvs \<noteq> [] \<Longrightarrow> foldl (\<lambda>d (k, v). dict_set d k v) d kvs \<noteq> []"
  by (induction kvs arbitrary: d) (auto simp: dict_set_not_Nil)

lemma dict_of_pairs_not_Nil: "kvs \<noteq> [] \<Longrightarrow> dict_of_pairs kvs \<noteq> []"
  by (simp add: dict_of_pairs_def foldl_dict_set_not_Nil)

lemma build_scores:
  "d \<noteq> [] \<Longrightarrow> scores (build_similarity_histogram_response d (map snd d) n votes) = d"
  by (simp add: build_similarity_histogram_response_def Let_def split: prod.splits)

lemma get_sim_not_ready:
  "\<not> ready ds \<Longrightarrow> get_similarity_score_histogram E ds request s =
     Inl (RuntimeError ''DataService not ready'')"
  by (simp add: get_similarity_score_histogram_def)

lemma get_sim_no_metrics:
  "ready ds \<Longrightarrow> extract_metrics ds (block_ids request) = None \<Longrightarrow>
   get_similarity_score_histogram E ds request s = Inr (empty_response, s)"
  by (simp add: get_similarity_score_histogram_def)

lemma get_sim_one_class:
  "ready ds \<Longrightarrow> extract_metrics ds (block_ids request) = Some (ids, M) \<Longrightarrow>
   label_partition E request ids = (sel, rej, w) \<Longrightarrow> sel = [] \<or> rej = [] \<Longrightarrow>
   get_similarity_score_histogram E ds request s = Inr (empty_response, s)"
  by (auto simp: get_similarity_score_histogram_def)

lemma get_sim_cases:
  assumes "get_similarity_score_histogram E ds request s = Inr (resp, s')"
  obtains (degenerate) "resp = empty_response" "s' = s"
  | (scored) ids M sel rej w model scaler s1 rf mlp csc votes where
      "ready ds" "extract_metrics ds (block_ids request) = Some (ids, M)"
      "label_partition E request ids = (sel, rej, w)" "sel \<noteq> []" "rej \<noteq> []"
      "get_or_train E (cache_key E (selected_items request) (rejected_items request))
           (map (\<lambda>i. M ! i) sel) (map (\<lambda>i. M ! i) rej)
           (map (sample_weight E w ids) sel) (map (sample_weight E w ids) rej) s
         = ((model, scaler), s1)"
      "train_committee E (map (\<lambda>i. M ! i) sel @ map (\<lambda>i. M ! i) rej)
           (replicate (length sel) 1 @ replicate (length rej) 0)
           (Some (map (sample_weight E w ids) sel @ map (sample_weight E w ids) rej)) s1
         = ((rf, mlp, csc), s')"
      "resp = build_similarity_histogram_response
              (dict_of_pairs (zip ids (score_with_svm E model scaler M)))
              (map snd (dict_of_pairs (zip ids (score_with_svm E model scaler M))))
              (length (dict_of_pairs (zip ids (score_with_svm E model scaler M)))) votes"
proof -
  have r: "ready ds" using assms get_sim_not_ready[of ds E request s] by auto
  show thesis
  proof (cases "extract_metrics ds (block_ids request)")
    case None
    with assms r degenerate show ?thesis by (simp add: get_sim_no_metrics)
  next
    case (Some p)
    obtain ids M where p: "p = (ids, M)" by (cases p)
    obtain sel rej w where lp: "label_partition E request ids = (sel, rej, w)"
      by (cases "label_partition E request ids") auto
    show ?thesis
    proof (cases "sel = [] \<or> rej = []")
      case True
      from get_sim_one_class[OF r Some[unfolded p] lp True, of s] assms degenerate
      show ?thesis by simp
    next
      case False
      obtain model scaler s1 where g:
        "get_or_train E (cache_key E (selected_items request) (rejected_items request))
           (map (\<lambda>i. M ! i) sel) (map (\<lambda>i. M ! i) rej)
           (map (sample_weight E w ids) sel) (map (sample_weight E w ids) rej) s
         = ((model, scaler), s1)"
        by (metis surj_pair)
      obtain rf mlp csc s2 where t:
        "train_committee E (map (\<lambda>i. M ! i) sel @ map (\<lambda>i. M ! i) rej)
           (replicate (length sel) 1 @ replicate (length rej) 0)
           (Some (map (sample_weight E w ids) sel @ map (sample_weight E w ids) rej)) s1
         = ((rf, mlp, csc), s2)"
        by (metis surj_pair)
      from False have ne: "sel \<noteq> []" "rej \<noteq> []" by auto
      from get_sim_nondegenerate[OF r Some[unfolded p] lp ne g t] assms
      obtain votes where
        "resp = build_similarity_histogram_response
              (dict_of_pairs (zip ids (score_with_svm E model scaler M)))
              (map snd (dict_of_pairs (zip ids (score_with_svm E model scaler M))))
              (length (dict_of_pairs (zip ids (score_with_svm E model scaler M)))) votes"
        and "s' = s2"
        by auto
      with scored[OF r Some[unfolded p] lp ne g] t show ?thesis by blast
    qed
  qed
qed

lemma get_sim_total:
  assumes "ready ds"
  shows "\<exists>resp s'. get_similarity_score_histogram E ds request s = Inr (resp, s')"
proof (cases "extract_metrics ds (block_ids request)")
  case None
  with assms show ?thesis by (simp add: get_sim_no_metrics)
next
  case (Some p)
  obtain ids M where p: "p = (ids, M)" by (cases p)
  obtain sel rej w where lp: "label_partition E request ids = (sel, rej, w)"
    by (cases "label_partition E request ids") auto
  show ?thesis
  proof (cases "sel = [] \<or> rej = []")
    case True
    from get_sim_one_class[OF assms Some[unfolded p] lp True, of s]
    show ?thesis by simp
  next
    case False
    obtain model scaler s1 where g:
      "get_or_train E (cache_key E (selected_items request) (rejected_items request))
         (map (\<lambda>i. M ! i) sel) (map (\<lambda>i. M ! i) rej)
         (map (sample_weight E w ids) sel) (map (sample_weight E w ids) rej) s
       = ((model, scaler), s1)"
      by (metis surj_pair)
    obtain rf mlp csc s2 where t:
      "train_committee E (map (\<lambda>i. M ! i) sel @ map (\<lambda>i. M ! i) rej)
         (replicate (length sel) 1 @ replicate (length rej) 0)
         (Some (map (sample_weight E w ids) sel @ map (sample_weight E w ids) rej)) s1
       = ((rf, mlp, csc), s2)"
      by (metis surj_pair)
    from False have ne: "sel \<noteq> []" "rej \<noteq> []" by auto
    from get_sim_nondegenerate[OF assms Some[unfolded p] lp ne g t]
    show ?thesis by blast
  qed
qed

lemma get_sim_cache_length:
  assumes "get_similarity_score_histogram E ds request s = Inr (resp, s')"
    and "length (svm_cache s) \<le> max_cache_size"
  shows "length (svm_cache s') \<le> max_cache_size"
  using assms(1)
proof (cases rule: get_sim_cases)
  case degenerate
  then show ?thesis using assms(2) by simp
next
  case (scored ids M sel rej w model scaler s1 rf mlp csc votes)
  have "svm_cache s' = svm_cache s1"
    using train_committee_state[of E _ _ _ s1] scored(7) by (metis snd_conv)
  moreover have "length (svm_cache s1) \<le> max_cache_size"
    using get_or_train_cache_length[OF assms(2)] scored(6) by (metis snd_conv)
  ultimately show ?thesis by simp
qed

text \<open>
  C4. A \<open>ClassificationService\<close> is built over a data service whose \<open>initialize\<close> has
  completed (\<open>main.py\<close>), so the data service is ready whenever a score request is served.
  A score request in which no candidate has a metrics row (or there are no metric columns),
  or the selected list is empty, or the rejected list is empty, returns the empty result: no
  scores, no bins, counts or edges, all four statistics 0 and \<open>total_items = 0\<close>; no error
  is raised and the state of the service is unchanged.
\<close>

theorem degenerate_request_empty_result:
  assumes "ready ds"
    and "(case metrics_frame ds of None \<Rightarrow> True
          | Some rows \<Rightarrow> \<forall>row \<in> set rows. fst row \<notin> set (block_ids request))
         \<or> metric_columns ds = []
         \<or> selected_items request = [] \<or> rejected_items request = []"
  shows "\<exists>resp. get_similarity_score_histogram E ds request s = Inr (resp, s) \<and>
           scores resp = [] \<and>
           bins (histogram resp) = [] \<and> counts (histogram resp) = [] \<and>
           bin_edges (histogram resp) = [] \<and>
           stat_min (statistics resp) = 0 \<and> stat_max (statistics resp) = 0 \<and>
           stat_mean (statistics resp) = 0 \<and> stat_median (statistics resp) = 0 \<and>
           total_items resp = 0"
proof -
  have "get_similarity_score_histogram E ds request s = Inr (empty_response, s)"
  proof (cases "extract_metrics ds (block_ids request)")
    case None
    then show ?thesis using assms(1) by (simp add: get_sim_no_metrics)
  next
    case (Some p)
    obtain ids M where p: "p = (ids, M)" by (cases p)
    obtain sel rej w where lp: "label_partition E request ids = (sel, rej, w)"
      by (cases "label_partition E request ids") auto
    from Some extract_metrics_None[where ds = ds and cand = "block_ids request"] assms(2)
    have "selected_items request = [] \<or> rejected_items request = []" by auto
    then have "sel = [] \<or> rej = []"
      using label_partition_sets(1,2)[OF lp] by auto
    from get_sim_one_class[OF assms(1) Some[unfolded p] lp this] show ?thesis .
  qed
  then show ?thesis by (simp add: empty_response_def)
qed

theorem degenerate_request_empty_result_witness:
  "ready example_ds \<and> selected_items (example_request\<lparr>selected_items := []\<rparr>) = [] \<and>
   (\<exists>resp. get_similarity_score_histogram example_env example_ds
              (example_request\<lparr>selected_items := []\<rparr>) warm_state = Inr (resp, warm_state) \<and>
           scores resp = [] \<and> total_items resp = 0)"
proof -
  have 1: "ready example_ds" by (simp add: example_ds_def)
  have 2: "selected_items (example_request\<lparr>selected_items := []\<rparr>) = []" by simp
  from degenerate_request_empty_result[OF 1, of "example_request\<lparr>selected_items := []\<rparr>"
      example_env warm_state] 1 2
  show ?thesis by auto
qed

lemma count_list_lt_iff_labels:
  "(count_list (replicate a (1::int) @ replicate b 0) 1 < 3 \<or>
    count_list (replicate a (1::int) @ replicate b 0) 0 < 3) = (a < 3 \<or> b < 3)"
  by (simp add: count_list_replicate_eq)

lemma train_committee_fst:
  "\<not> (count_list y 1 < 3 \<or> count_list y 0 < 3) \<Longrightarrow>
   fst (train_committee E X y w s) =
     (case rf_fit E (max 10 (min 100 (length y div 2)))
             (min 5 (max 2 (nat \<lfloor>log 2 (real (length y + 1))\<rfloor>)))
             (transform E (scaler_fit E X) X) y w of
        Inr rf \<Rightarrow> Some rf | Inl e \<Rightarrow> None,
      case mlp_fit E (if length y < 20 then [16] else [32, 16])
             (transform E (scaler_fit E X) X) y w of
        Inr mlp \<Rightarrow> Some mlp | Inl e \<Rightarrow> None,
      Some (scaler_fit E X))"
  by (simp add: train_committee_def MIN_SAMPLES_PER_CLASS_def Let_def train_rf_result
      train_mlp_result fit_transform_def split: prod.splits)

text \<open>
  C9. When either class has fewer than 3 samples, \<open>train_committee\<close> returns three absent
  results and leaves the state as it was. An exception raised by the fit of the forest or of
  the network makes \<open>_train_rf\<close> or \<open>_train_mlp\<close> return \<open>None\<close> for that member, also
  inside \<open>train_committee\<close>. Whatever the two fits do, the score operation of a ready data
  service returns a response.
\<close>

theorem auxiliary_training_never_aborts:
  "(count_list y 1 < 3 \<or> count_list y 0 < 3 \<longrightarrow>
      train_committee E X y w s = ((None, None, None), s)) \<and>
   fst (train_rf E X y w n s) =
     (case rf_fit E (max 10 (min 100 (n div 2))) (min 5 (max 2 (nat \<lfloor>log 2 (real (n + 1))\<rfloor>))) X y w of
        Inr rf \<Rightarrow> Some rf | Inl e \<Rightarrow> None) \<and>
   fst (train_mlp E X y w n s) =
     (case mlp_fit E (if n < 20 then [16] else [32, 16]) X y w of
        Inr mlp \<Rightarrow> Some mlp | Inl e \<Rightarrow> None) \<and>
   (\<not> (count_list y 1 < 3 \<or> count_list y 0 < 3) \<longrightarrow>
      fst (train_committee E X y w s) =
        (case rf_fit E (max 10 (min 100 (length y div 2)))
                (min 5 (max 2 (nat \<lfloor>log 2 (real (length y + 1))\<rfloor>)))
                (transform E (scaler_fit E X) X) y w of
           Inr rf \<Rightarrow> Some rf | Inl e \<Rightarrow> None,
         case mlp_fit E (if length y < 20 then [16] else [32, 16])
                (transform E (scaler_fit E X) X) y w of
           Inr mlp \<Rightarrow> Some mlp | Inl e \<Rightarrow> None,
         Some (scaler_fit E X))) \<and>
   (ready ds \<longrightarrow> (\<exists>resp s'. get_similarity_score_histogram E ds request s = Inr (resp, s')))"
  using train_committee_small[of y E X w s] train_committee_fst[of y E X w s]
    get_sim_total[of ds E request s]
  by (simp add: train_rf_result train_mlp_result)

lemma example_extract:
  "extract_metrics example_ds (block_ids example_request) =
     Some ([1, 2, 3, 4, 5, 6], [[0], [0], [0], [4], [4], [4]])"
  by (simp add: extract_metrics_def get_metrics_def example_ds_def example_request_def
      metric_matrix_def fill_null_def)

lemma example_partition:
  "label_partition E example_request [1, 2, 3, 4, 5, 6] =
     ([3, 4, 5], [0, 1, 2], snd (snd (label_partition E example_request [1, 2, 3, 4, 5, 6])))"
proof -
  have "fst (label_partition E example_request [1, 2, 3, 4, 5, 6]) = [3, 4, 5] \<and>
        fst (snd (label_partition E example_request [1, 2, 3, 4, 5, 6])) = [0, 1, 2]"
    by (simp add: label_partition_def example_request_def enumerate_eq_zip upt_rec numeral_nat
        split: prod.splits)
  then show ?thesis by (metis prod.collapse)
qed


lemma train_committee_result_state:
  assumes "train_committee E X y w s = (r, s2)"
  shows "svm_cache s2 = svm_cache s"
    and "fits s2 = fits s @ (if count_list y 1 < 3 \<or> count_list y 0 < 3 then [] else [Fit_RF, Fit_MLP])"
  using train_committee_state[of E X y w s] by (simp_all add: assms)

lemma example_hit:
  "map_of (svm_cache warm_state)
     (cache_key example_env (selected_items example_request) (rejected_items example_request))
   = Some ((), ())"
  by (simp add: warm_state_def)

lemma example_warm_run:
  "\<exists>resp s'. get_similarity_score_histogram example_env example_ds example_request warm_state
       = Inr (resp, s') \<and> fits s' = [Fit_RF, Fit_MLP]"
proof -
  let ?E = example_env
  let ?M = "[[0], [0], [0], [4], [4], [4]] :: real list list"
  let ?ids = "[1, 2, 3, 4, 5, 6] :: int list"
  let ?w = "snd (snd (label_partition ?E example_request ?ids))"
  have r: "ready example_ds" by (simp add: example_ds_def)
  have g: "get_or_train ?E (cache_key ?E (selected_items example_request) (rejected_items example_request))
           (map (\<lambda>i. ?M ! i) [3, 4, 5]) (map (\<lambda>i. ?M ! i) [0, 1, 2])
           (map (sample_weight ?E ?w ?ids) [3, 4, 5]) (map (sample_weight ?E ?w ?ids) [0, 1, 2]) warm_state
         = (((), ()), warm_state)"
    by (rule get_or_train_hit[OF example_hit])
  obtain rf mlp csc s2 where t:
    "train_committee ?E (map (\<lambda>i. ?M ! i) [3, 4, 5] @ map (\<lambda>i. ?M ! i) [0, 1, 2])
       (replicate (length [3, 4, 5 :: nat]) 1 @ replicate (length [0, 1, 2 :: nat]) 0)
       (Some (map (sample_weight ?E ?w ?ids) [3, 4, 5] @ map (sample_weight ?E ?w ?ids) [0, 1, 2]))
       warm_state = ((rf, mlp, csc), s2)"
    by (metis surj_pair)
  have "fits s2 = fits warm_state @ [Fit_RF, Fit_MLP]"
    using train_committee_result_state(2)[OF t] by (simp add: count_list_replicate_eq)
  then have f: "fits s2 = [Fit_RF, Fit_MLP]" by (simp add: warm_state_def init_state_def)
  from get_sim_nondegenerate[OF r example_extract example_partition _ _ g t] f
  show ?thesis by auto
qed

text \<open>
  C1 does not hold as stated: on a request whose key is in the cache, with three selected and
  three rejected rows, the forest and the network are fitted again.
\<close>

theorem warm_cache_retrains_committee:
  "map_of (svm_cache warm_state)
     (cache_key example_env (selected_items example_request) (rejected_items example_request))
     = Some ((), ()) \<and>
   fits (snd (projr (get_similarity_score_histogram example_env example_ds example_request
                       warm_state))) = [Fit_RF, Fit_MLP]"
  using example_hit example_warm_run by auto

lemma scored_response_scores:
  assumes "extract_metrics ds cand = Some (ids, M)"
  shows "scores (build_similarity_histogram_response
              (dict_of_pairs (zip ids (score_with_svm E model scaler M)))
              (map snd (dict_of_pairs (zip ids (score_with_svm E model scaler M))))
              n votes)
         = dict_of_pairs (zip ids (map (decision_function E model) (transform E scaler M)))"
proof -
  from extract_metrics_Some[OF assms] have "zip ids (score_with_svm E model scaler M) \<noteq> []"
    by (cases ids; cases M) (auto simp: score_with_svm_def transform_def)
  then have "dict_of_pairs (zip ids (score_with_svm E model scaler M)) \<noteq> []"
    by (rule dict_of_pairs_not_Nil)
  then show ?thesis
    by (simp add: build_scores) (simp add: score_with_svm_def)
qed

text \<open>
  C1 (amended). The cache holds pairs of SVM and scaler. On a request whose key is in the
  cache, the cache is left as it is and no SVM is fitted; when the request is not degenerate,
  the scores are the decision values of the cached SVM on the rows transformed by the cached
  scaler, and the forest and the network are fitted during the request exactly when both
  classes have at least 3 rows.
\<close>

theorem cache_hit_reuses_svm:
  assumes hit: "map_of (svm_cache s)
                  (cache_key E (selected_items request) (rejected_items request))
                = Some (model, scaler)"
  shows "(\<forall>resp s'. get_similarity_score_histogram E ds request s = Inr (resp, s') \<longrightarrow>
            svm_cache s' = svm_cache s \<and> (\<exists>new. fits s' = fits s @ new \<and> Fit_SVC \<notin> set new)) \<and>
         (\<forall>ids M sel rej w.
            ready ds \<and> extract_metrics ds (block_ids request) = Some (ids, M) \<and>
            label_partition E request ids = (sel, rej, w) \<and> sel \<noteq> [] \<and> rej \<noteq> [] \<longrightarrow>
            (\<exists>resp s'. get_similarity_score_histogram E ds request s = Inr (resp, s') \<and>
               scores resp =
                 dict_of_pairs (zip ids (map (decision_function E model) (transform E scaler M))) \<and>
               fits s' = fits s @ (if length sel < 3 \<or> length rej < 3 then []
                                   else [Fit_RF, Fit_MLP])))"
proof (intro conjI allI impI)
  fix resp s'
  assume run: "get_similarity_score_histogram E ds request s = Inr (resp, s')"
  from run show "svm_cache s' = svm_cache s"
  proof (cases rule: get_sim_cases)
    case degenerate
    then show ?thesis by simp
  next
    case (scored ids M sel rej w model' scaler' s1 rf mlp csc votes)
    from scored(6) have "s1 = s" by (simp add: get_or_train_hit[OF hit])
    with train_committee_result_state(1)[OF scored(7)] show ?thesis by simp
  qed
  from run show "\<exists>new. fits s' = fits s @ new \<and> Fit_SVC \<notin> set new"
  proof (cases rule: get_sim_cases)
    case degenerate
    then show ?thesis by simp
  next
    case (scored ids M sel rej w model' scaler' s1 rf mlp csc votes)
    from scored(6) have "s1 = s" by (simp add: get_or_train_hit[OF hit])
    with train_committee_result_state(2)[OF scored(7)] show ?thesis by auto
  qed
next
  fix ids M sel rej w
  assume a: "ready ds \<and> extract_metrics ds (block_ids request) = Some (ids, M) \<and>
            label_partition E request ids = (sel, rej, w) \<and> sel \<noteq> [] \<and> rej \<noteq> []"
  have g: "get_or_train E (cache_key E (selected_items request) (rejected_items request))
           (map (\<lambda>i. M ! i) sel) (map (\<lambda>i. M ! i) rej)
           (map (sample_weight E w ids) sel) (map (sample_weight E w ids) rej) s
         = ((model, scaler), s)"
    by (rule get_or_train_hit[OF hit])
  obtain rf mlp csc s2 where t:
    "train_committee E (map (\<lambda>i. M ! i) sel @ map (\<lambda>i. M ! i) rej)
       (replicate (length sel) 1 @ replicate (length rej) 0)
       (Some (map (sample_weight E w ids) sel @ map (sample_weight E w ids) rej)) s
     = ((rf, mlp, csc), s2)"
    by (metis surj_pair)
  from a have r: "ready ds" and e: "extract_metrics ds (block_ids request) = Some (ids, M)"
    and lp: "label_partition E request ids = (sel, rej, w)" and ne: "sel \<noteq> []" "rej \<noteq> []"
    by auto
  have f: "fits s2 = fits s @ (if length sel < 3 \<or> length rej < 3 then [] else [Fit_RF, Fit_MLP])"
    using train_committee_result_state(2)[OF t] by (simp add: count_list_replicate_eq)
  from get_sim_nondegenerate[OF r e lp ne g t] obtain votes where
    "get_similarity_score_histogram E ds request s =
       Inr (build_similarity_histogram_response
              (dict_of_pairs (zip ids (score_with_svm E model scaler M)))
              (map snd (dict_of_pairs (zip ids (score_with_svm E model scaler M))))
              (length (dict_of_pairs (zip ids (score_with_svm E model scaler M)))) votes, s2)"
    by blast
  with f scored_response_scores[OF e]
  show "\<exists>resp s'. get_similarity_score_histogram E ds request s = Inr (resp, s') \<and>
               scores resp =
                 dict_of_pairs (zip ids (map (decision_function E model) (transform E scaler M))) \<and>
               fits s' = fits s @ (if length sel < 3 \<or> length rej < 3 then []
                                   else [Fit_RF, Fit_MLP])"
    by auto
qed

theorem cache_hit_reuses_svm_witness:
  "map_of (svm_cache warm_state)
     (cache_key example_env (selected_items example_request) (rejected_items example_request))
     = Some ((), ()) \<and>
   ready example_ds \<and>
   extract_metrics example_ds (block_ids example_request) =
     Some ([1, 2, 3, 4, 5, 6], [[0], [0], [0], [4], [4], [4]]) \<and>
   (\<exists>resp s'. get_similarity_score_histogram example_env example_ds example_request warm_state
        = Inr (resp, s') \<and>
      scores resp = [(1, 0), (2, 0), (3, 0), (4, 4), (5, 4), (6, 4)] \<and>
      svm_cache s' = svm_cache warm_state \<and> fits s' = [Fit_RF, Fit_MLP])"
proof -
  have r: "ready example_ds" by (simp add: example_ds_def)
  have d: "dict_of_pairs (zip [1, 2, 3, 4, 5, 6 :: int]
             (map (decision_function example_env ())
                (transform example_env () [[0], [0], [0], [4], [4], [4]])))
           = [(1, 0), (2, 0), (3, 0), (4, 4), (5, 4), (6, 4)]"
    by (simp add: dict_of_pairs_def transform_def example_env_def)
  have f: "fits warm_state = []" by (simp add: warm_state_def init_state_def)
  note inst = cache_hit_reuses_svm[OF example_hit, of example_ds]
  from inst[THEN conjunct2, rule_format, OF conjI[OF r conjI[OF example_extract
        conjI[OF example_partition]]]]
  obtain resp s' where run:
    "get_similarity_score_histogram example_env example_ds example_request warm_state
        = Inr (resp, s')"
    and sc: "scores resp = [(1, 0), (2, 0), (3, 0), (4, 4), (5, 4), (6, 4)]"
    and fi: "fits s' = [Fit_RF, Fit_MLP]"
    by (auto simp: d f)
  from inst[THEN conjunct1, rule_format, OF run] have "svm_cache s' = svm_cache warm_state"
    by simp
  with run sc fi r example_hit example_extract show ?thesis by blast
qed

theorem auxiliary_training_never_aborts_witness:
  "count_list [1, 1, 0 :: int] 1 < 3 \<and>
   train_committee example_env [[1], [2], [3]] [1, 1, 0] None init_state
     = ((None, None, None), init_state) \<and>
   fst (train_mlp example_env [[1], [2], [3]] [1, 1, 0] None 3 init_state) = None \<and>
   fst (train_committee example_env [[0], [0], [0], [4], [4], [4]] [1, 1, 1, 0, 0, 0] None init_state)
     = (Some (), None, Some ()) \<and>
   ready example_ds \<and>
   (\<exists>resp s'. get_similarity_score_histogram example_env example_ds example_request init_state
      = Inr (resp, s'))"
proof -
  have 1: "count_list [1, 1, 0 :: int] 1 < 3" by simp
  have 2: "ready example_ds" by (simp add: example_ds_def)
  note small = auxiliary_training_never_aborts[of "[1, 1, 0]" example_env "[[1], [2], [3]]" None
      init_state 3 example_ds example_request]
  note large = auxiliary_training_never_aborts[of "[1, 1, 1, 0, 0, 0]" example_env
      "[[0], [0], [0], [4], [4], [4]]" None init_state 6 example_ds example_request]
  have a: "train_committee example_env [[1], [2], [3]] [1, 1, 0] None init_state
     = ((None, None, None), init_state)"
    using small 1 by blast
  have b: "fst (train_mlp example_env [[1], [2], [3]] [1, 1, 0] None 3 init_state) = None"
    using small by (simp add: example_env_def)
  have c: "fst (train_committee example_env [[0], [0], [0], [4], [4], [4]] [1, 1, 1, 0, 0, 0] None
             init_state) = (Some (), None, Some ())"
    using large by (simp add: example_env_def)
  have d: "\<exists>resp s'. get_similarity_score_histogram example_env example_ds example_request init_state
      = Inr (resp, s')"
    using small 2 by blast
  from 1 2 a b c d show ?thesis by blast
qed

lemma map_of_fst_None: "map_of c k = None \<longleftrightarrow> k \<notin> set (map fst c)"
  by (simp add: map_of_eq_None_iff)

text \<open>
  C5. The cache of a fresh service is empty and a score request never makes a cache of at
  most 100 entries longer than 100. A hit leaves the cache as it is. After the insertion of
  distinct keys into the cache of a fresh service, the cache holds the last 100 of them in
  the order of insertion; so after 101 distinct keys it holds 100 entries, the first key
  inserted misses and every other key hits.
\<close>

theorem cache_bounded_fifo:
  fixes E :: "('k, 'svm, 'rf, 'mlp, 'sc) env"
    and s :: "('k, 'svm, 'rf, 'mlp, 'sc) service_state"
  shows
  "length (svm_cache (init_state :: ('k, 'svm, 'rf, 'mlp, 'sc) service_state)) \<le> 100 \<and>
   (length (svm_cache s) \<le> 100 \<and> get_similarity_score_histogram E ds request s = Inr (resp, s')
      \<longrightarrow> length (svm_cache s') \<le> 100) \<and>
   (map_of (svm_cache s) key \<noteq> None \<longrightarrow>
      svm_cache (snd (get_or_train E key sv rv sw rw s)) = svm_cache s) \<and>
   (distinct ks \<longrightarrow>
      map fst (svm_cache (foldl (\<lambda>s k. snd (get_or_train E k sv rv sw rw s)) init_state ks))
        = drop (length ks - 100) ks) \<and>
   (distinct ks \<and> length ks = 101 \<longrightarrow>
      (let c = svm_cache (foldl (\<lambda>s k. snd (get_or_train E k sv rv sw rw s)) init_state ks)
       in length c = 100 \<and> map fst c = tl ks \<and> map_of c (hd ks) = None \<and>
          (\<forall>k \<in> set (tl ks). map_of c k \<noteq> None)))"
proof (intro conjI impI)
  show "length (svm_cache (init_state :: ('k, 'svm, 'rf, 'mlp, 'sc) service_state)) \<le> 100"
    by (simp add: init_state_def)
  show "length (svm_cache s') \<le> 100"
    if "length (svm_cache s) \<le> 100 \<and> get_similarity_score_histogram E ds request s = Inr (resp, s')"
    using get_sim_cache_length[of E ds request s resp s'] that by (simp add: max_cache_size_def)
  show "svm_cache (snd (get_or_train E key sv rv sw rw s)) = svm_cache s"
    if "map_of (svm_cache s) key \<noteq> None"
    using that by (auto simp: get_or_train_hit)
  have keys: "map fst (svm_cache (foldl (\<lambda>s k. snd (get_or_train E k sv rv sw rw s)) init_state ks))
        = drop (length ks - 100) ks" if "distinct ks"
    using fifo_keys[OF that, of init_state E sv rv sw rw]
    by (simp add: init_state_def max_cache_size_def)
  then show "map fst (svm_cache (foldl (\<lambda>s k. snd (get_or_train E k sv rv sw rw s)) init_state ks))
        = drop (length ks - 100) ks" if "distinct ks"
    using that .
  show "let c = svm_cache (foldl (\<lambda>s k. snd (get_or_train E k sv rv sw rw s)) init_state ks)
       in length c = 100 \<and> map fst c = tl ks \<and> map_of c (hd ks) = None \<and>
          (\<forall>k \<in> set (tl ks). map_of c k \<noteq> None)"
    if a: "distinct ks \<and> length ks = 101"
  proof -
    let ?c = "svm_cache (foldl (\<lambda>s k. snd (get_or_train E k sv rv sw rw s)) init_state ks)"
    obtain k0 rest where ks: "ks = k0 # rest" using a by (cases ks) auto
    have m: "map fst ?c = tl ks" using keys a by (simp add: ks)
    have "length (map fst ?c) = 100" unfolding m using a by simp
    then have l: "length ?c = 100" by simp
    have h: "map_of ?c (hd ks) = None"
      unfolding map_of_fst_None m using a by (simp add: ks)
    have o: "\<forall>k \<in> set (tl ks). map_of ?c k \<noteq> None"
      unfolding map_of_fst_None m by simp
    from l m h o show ?thesis by (simp add: Let_def)
  qed
qed

theorem cache_bounded_fifo_witness:
  "distinct (map (\<lambda>i. ([(int i, Click)], [] :: (int \<times> source) list)) [0..<101]) \<and>
   length (map (\<lambda>i. ([(int i, Click)], [] :: (int \<times> source) list)) [0..<101]) = 101 \<and>
   length (svm_cache warm_state) \<le> 100 \<and>
   map_of (svm_cache warm_state)
     (cache_key example_env (selected_items example_request) (rejected_items example_request)) \<noteq> None \<and>
   length (svm_cache (snd (projr (get_similarity_score_histogram example_env example_ds
                                    example_request warm_state)))) \<le> 100 \<and>
   (let c = svm_cache (foldl (\<lambda>s k. snd (get_or_train example_env k [] [] [] [] s)) init_state
                        (map (\<lambda>i. ([(int i, Click)], [])) [0..<101]))
    in length c = 100 \<and> map_of c (hd (map (\<lambda>i. ([(int i, Click)], [])) [0..<101])) = None)"
proof -
  let ?ks = "map (\<lambda>i. ([(int i, Click)], [] :: (int \<times> source) list)) [0..<101]"
  let ?R = "get_similarity_score_histogram example_env example_ds example_request warm_state"
  have 1: "distinct ?ks" by (simp add: distinct_map inj_on_def)
  have 2: "length ?ks = 101" by simp
  have 3: "length (svm_cache warm_state) \<le> 100" by (simp add: warm_state_def init_state_def)
  have 4: "map_of (svm_cache warm_state)
     (cache_key example_env (selected_items example_request) (rejected_items example_request)) \<noteq> None"
    by (simp add: example_hit)
  have 5: "?R = Inr (fst (projr ?R), snd (projr ?R))"
    using example_warm_run by auto
  note inst = cache_bounded_fifo[where s = warm_state and E = example_env and ds = example_ds
      and request = example_request and resp = "fst (projr ?R)" and s' = "snd (projr ?R)"
      and ks = ?ks and sv = "[]" and rv = "[]" and sw = "[]" and rw = "[]"]
  from inst 3 5 have 6: "length (svm_cache (snd (projr ?R))) \<le> 100"
    by blast
  from inst 1 2 have 7:
    "let c = svm_cache (foldl (\<lambda>s k. snd (get_or_train example_env k [] [] [] [] s)) init_state ?ks)
     in length c = 100 \<and> map fst c = tl ?ks \<and> map_of c (hd ?ks) = None \<and>
        (\<forall>k \<in> set (tl ?ks). map_of c k \<noteq> None)"
    by blast
  then have 8:
    "let c = svm_cache (foldl (\<lambda>s k. snd (get_or_train example_env k [] [] [] [] s)) init_state ?ks)
     in length c = 100 \<and> map_of c (hd ?ks) = None"
    unfolding Let_def by blast
  from 1 2 3 4 6 8 show ?thesis by (intro conjI)
qed

section \<open>Features of the committee at scoring time\<close>

lemma committee_rows_transformed_by_both_scalers:
  assumes "predict_with_committee E (transform E scaler M) svm_scores (Some rf) mlp (Some csc) = Inr preds"
    and "i < length svm_scores" and "i < length M"
  shows "rf_prediction (preds ! i) =
           rf_predict E rf (scaler_transform E csc (scaler_transform E scaler (M ! i)))"
  using assms
  by (auto simp: predict_with_committee_def transform_def Let_def split: if_splits)

lemma example_standard_fit:
  "standard_fit [[4], [4], [4], [0], [0], [0]] = ([2], [2])"
  by (simp add: standard_fit_def column_def column_mean_def)

lemma example_once:
  "map (rf_predict standard_env ())
     (transform standard_env (scaler_fit standard_env [[4], [4], [4], [0], [0], [0]])
        [[0], [0], [0], [4], [4], [4]]) = [0, 0, 0, 1, 1, 1]"
  by (simp add: standard_env_def example_standard_fit transform_def standard_transform_def)

lemma build_votes:
  "d \<noteq> [] \<Longrightarrow> committee_votes (build_similarity_histogram_response d (map snd d) n votes) = votes"
  by (simp add: build_similarity_histogram_response_def Let_def split: prod.splits)

lemma example_cold_run:
  "\<exists>resp s' preds.
     get_similarity_score_histogram standard_env example_ds example_request init_state
       = Inr (resp, s') \<and>
     committee_votes resp = Some (get_vote_info_dict [1, 2, 3, 4, 5, 6] preds) \<and>
     predict_with_committee standard_env
       (transform standard_env ([2], [2]) [[0], [0], [0], [4], [4], [4]])
       (score_with_svm standard_env () ([2], [2]) [[0], [0], [0], [4], [4], [4]])
       (Some ()) None (Some ([2], [2])) = Inr preds"
proof -
  let ?E = standard_env
  let ?M = "[[0], [0], [0], [4], [4], [4]] :: real list list"
  let ?ids = "[1, 2, 3, 4, 5, 6] :: int list"
  let ?w = "snd (snd (label_partition ?E example_request ?ids))"
  have r: "ready example_ds" by (simp add: example_ds_def)
  obtain s1 where g:
    "get_or_train ?E (cache_key ?E (selected_items example_request) (rejected_items example_request))
           (map (\<lambda>i. ?M ! i) [3, 4, 5]) (map (\<lambda>i. ?M ! i) [0, 1, 2])
           (map (sample_weight ?E ?w ?ids) [3, 4, 5]) (map (sample_weight ?E ?w ?ids) [0, 1, 2]) init_state
         = (((), ([2], [2])), s1)"
    by (simp add: get_or_train_def init_state_def train_svm_model_def fit_transform_def Let_def
        standard_env_def example_standard_fit)
  obtain r3 s2 where t:
    "train_committee ?E (map (\<lambda>i. ?M ! i) [3, 4, 5] @ map (\<lambda>i. ?M ! i) [0, 1, 2])
       (replicate (length [3, 4, 5 :: nat]) 1 @ replicate (length [0, 1, 2 :: nat]) 0)
       (Some (map (sample_weight ?E ?w ?ids) [3, 4, 5] @ map (sample_weight ?E ?w ?ids) [0, 1, 2]))
       s1 = (r3, s2)"
    by (metis surj_pair)
  have "r3 = (Some (), None, Some ([2], [2]))"
    using train_committee_fst[of "replicate (length [3, 4, 5 :: nat]) 1 @ replicate (length [0, 1, 2 :: nat]) 0"
        ?E "map (\<lambda>i. ?M ! i) [3, 4, 5] @ map (\<lambda>i. ?M ! i) [0, 1, 2]"
        "Some (map (sample_weight ?E ?w ?ids) [3, 4, 5] @ map (sample_weight ?E ?w ?ids) [0, 1, 2])" s1]
    unfolding t by (simp add: standard_env_def example_standard_fit)
  with t have t': "train_committee ?E (map (\<lambda>i. ?M ! i) [3, 4, 5] @ map (\<lambda>i. ?M ! i) [0, 1, 2])
       (replicate (length [3, 4, 5 :: nat]) 1 @ replicate (length [0, 1, 2 :: nat]) 0)
       (Some (map (sample_weight ?E ?w ?ids) [3, 4, 5] @ map (sample_weight ?E ?w ?ids) [0, 1, 2]))
       s1 = ((Some (), None, Some ([2], [2])), s2)"
    by simp
  have ne: "dict_of_pairs (zip ?ids (score_with_svm ?E () ([2], [2]) ?M)) \<noteq> []"
    by (rule dict_of_pairs_not_Nil) (simp add: score_with_svm_def transform_def)
  from get_sim_nondegenerate[OF r example_extract example_partition _ _ g t']
  show ?thesis
    by (auto simp: build_votes[OF ne])
qed

lemma example_preds:
  "predict_with_committee standard_env
       (transform standard_env ([2], [2]) [[0], [0], [0], [4], [4], [4]])
       (score_with_svm standard_env () ([2], [2]) [[0], [0], [0], [4], [4], [4]])
       (Some ()) None (Some ([2], [2])) = Inr preds \<Longrightarrow>
   map rf_prediction preds = [0, 0, 0, 0, 0, 0] \<and> map svm_prediction preds = [0, 0, 0, 1, 1, 1]"
  by (auto simp: predict_with_committee_def transform_def standard_transform_def score_with_svm_def
      svm_preds_of_def Let_def standard_env_def upt_rec numeral_nat)

lemma vote_dict_rf:
  assumes "map rf_prediction preds = [0, 0, 0, 0, 0, 0]"
  shows "map (\<lambda>(b, p). (b, rf_prediction p)) (get_vote_info_dict [1, 2, 3, 4, 5, 6] preds)
         = [(1, 0), (2, 0), (3, 0), (4, 0), (5, 0), (6, 0)]"
proof -
  from assms obtain p0 p1 p2 p3 p4 p5 where p: "preds = [p0, p1, p2, p3, p4, p5]"
    and "rf_prediction p0 = 0" "rf_prediction p1 = 0" "rf_prediction p2 = 0"
        "rf_prediction p3 = 0" "rf_prediction p4 = 0" "rf_prediction p5 = 0"
    by (auto simp: map_eq_Cons_conv)
  then show ?thesis
    by (simp add: get_vote_info_dict_def dict_of_pairs_def upt_rec numeral_nat)
qed

text \<open>
  C7, at a concrete request. Blocks 4, 5, 6 (metric 4) are selected, blocks 1, 2, 3 (metric 0)
  are rejected; the scaler fitted on the training matrix has mean 2 and scale 2, so the forest
  is trained on rows \<open>1\<close> and \<open>-1\<close>. At scoring time the service hands the rows already
  transformed by the SVM's scaler to \<open>predict_with_committee\<close>, which transforms them again
  with the committee's scaler: the forest sees \<open>-1/2\<close> and \<open>-3/2\<close> and votes 0 on every
  block, while on the rows transformed once it votes 1 on the blocks 4, 5, 6.
\<close>

theorem committee_rows_standardised_twice:
  "map (\<lambda>(b, p). (b, rf_prediction p))
     (the (committee_votes (fst (projr (get_similarity_score_histogram standard_env example_ds
                                          example_request init_state)))))
     = [(1, 0), (2, 0), (3, 0), (4, 0), (5, 0), (6, 0)] \<and>
   map (rf_predict standard_env ())
     (transform standard_env (scaler_fit standard_env [[4], [4], [4], [0], [0], [0]])
        [[0], [0], [0], [4], [4], [4]]) = [0, 0, 0, 1, 1, 1]"
proof -
  from example_cold_run obtain resp s' preds where
    run: "get_similarity_score_histogram standard_env example_ds example_request init_state
       = Inr (resp, s')"
    and v: "committee_votes resp = Some (get_vote_info_dict [1, 2, 3, 4, 5, 6] preds)"
    and p: "predict_with_committee standard_env
       (transform standard_env ([2], [2]) [[0], [0], [0], [4], [4], [4]])
       (score_with_svm standard_env () ([2], [2]) [[0], [0], [0], [4], [4], [4]])
       (Some ()) None (Some ([2], [2])) = Inr preds"
    by blast
  from example_preds[OF p] have "map rf_prediction preds = [0, 0, 0, 0, 0, 0]" by simp
  from vote_dict_rf[OF this] run v example_once show ?thesis by simp
qed

theorem committee_rows_standardised_twice_witness:
  "ready example_ds \<and>
   map (rf_prediction \<circ> snd)
     (the (committee_votes (fst (projr (get_similarity_score_histogram standard_env example_ds
                                          example_request init_state)))))
     = [0, 0, 0, 0, 0, 0]"
proof -
  let ?L = "the (committee_votes (fst (projr (get_similarity_score_histogram standard_env
                example_ds example_request init_state))))"
  have "map (rf_prediction \<circ> snd) ?L = map snd (map (\<lambda>(b, p). (b, rf_prediction p)) ?L)"
    by (simp add: comp_def case_prod_unfold)
  also have "\<dots> = map snd [(1 :: int, 0 :: int), (2, 0), (3, 0), (4, 0), (5, 0), (6, 0)]"
    using committee_rows_standardised_twice by simp
  finally show ?thesis by (simp add: example_ds_def)
qed

section \<open>The histogram builder\<close>

subsection \<open>Rounding to float64\<close>

lemma rhe_of_int: "round_half_even (of_int m) = m"
  by (simp add: round_half_even_def)

lemma rhe_range: "\<lfloor>q\<rfloor> \<le> round_half_even q \<and> round_half_even q \<le> \<lfloor>q\<rfloor> + 1"
  by (simp add: round_half_even_def Let_def)

lemma rhe_mono:
  assumes "q \<le> q'"
  shows "round_half_even q \<le> round_half_even q'"
proof (cases "\<lfloor>q\<rfloor> = \<lfloor>q'\<rfloor>")
  case True
  then show ?thesis using assms by (auto simp: round_half_even_def Let_def)
next
  case False
  then have "\<lfloor>q\<rfloor> < \<lfloor>q'\<rfloor>" using floor_mono[OF assms] by linarith
  then show ?thesis using rhe_range[of q] rhe_range[of q'] by linarith
qed

lemma rhe_ge: "of_int m \<le> q \<Longrightarrow> m \<le> round_half_even q"
  using rhe_mono[of "of_int m" q] by (simp add: rhe_of_int)

lemma rhe_le: "q \<le> of_int m \<Longrightarrow> round_half_even q \<le> m"
  using rhe_mono[of q "of_int m"] by (simp add: rhe_of_int)

lemma pow2_mono: "a \<le> b \<Longrightarrow> (2::real) powr of_int a \<le> 2 powr of_int b"
  by (simp add: powr_mono)

lemma pow2_nat: "0 \<le> k \<Longrightarrow> (2::real) powr of_int k = of_int (2 ^ nat k)"
  by (simp add: powr_real_of_int)

lemma pow2_split: "(2::real) powr of_int (a + b) = 2 powr of_int a * 2 powr of_int b"
  by (simp add: powr_add)

lemma binade:
  assumes "0 < x"
  shows "2 powr of_int \<lfloor>log 2 x\<rfloor> \<le> x" and "x < 2 powr of_int (\<lfloor>log 2 x\<rfloor> + 1)"
  using floor_log_eq_powr_iff[of x 2 "\<lfloor>log 2 x\<rfloor>"] assms by simp_all

lemma exponent_ge: "- 1074 \<le> float64_exponent x"
  by (simp add: float64_exponent_def)

lemma float64_zero: "float64 0 = 0"
  by (simp add: float64_def)

lemma float64_minus: "float64 (- x) = - float64 x"
  by (simp add: float64_def float64_exponent_def sgn_minus)

lemma float64_pos:
  assumes "0 < x"
  shows "float64 x = of_int (round_half_even (x / 2 powr of_int (float64_exponent x)))
                       * 2 powr of_int (float64_exponent x)"
  using assms by (simp add: float64_def)

lemma quotient_less:
  assumes "0 < x"
  shows "x / 2 powr of_int (float64_exponent x) < 2 ^ 53"
proof -
  let ?E = "\<lfloor>log 2 x\<rfloor>"
  let ?e = "float64_exponent x"
  have "?E + 1 \<le> ?e + 53" using assms by (simp add: float64_exponent_def)
  then have "2 powr of_int (?E + 1) \<le> (2::real) powr of_int (?e + 53)" by (rule pow2_mono)
  also have "\<dots> = 2 powr of_int ?e * 2 ^ 53" by (simp add: powr_add)
  finally have "x < 2 powr of_int ?e * 2 ^ 53" using binade(2)[OF assms] by linarith
  then show ?thesis by (simp add: pos_divide_less_eq mult.commute)
qed

lemma representable:
  assumes x: "x = of_int m * 2 powr of_int k" and m: "\<bar>m\<bar> < 2 ^ 53" and k: "- 1074 \<le> k"
  shows "float64 x = x"
proof (cases "x = 0")
  case True
  then show ?thesis by (simp add: float64_zero)
next
  case False
  then have m0: "m \<noteq> 0" using x by auto
  let ?e = "float64_exponent x"
  have ax: "\<bar>x\<bar> = of_int \<bar>m\<bar> * 2 powr of_int k" using x by (simp add: abs_mult)
  have pos: "0 < \<bar>x\<bar>" using False by simp
  have "\<bar>x\<bar> < 2 ^ 53 * 2 powr of_int k"
  proof -
    have "(of_int \<bar>m\<bar> :: real) < of_int (2 ^ 53)" using m by (simp only: of_int_less_iff)
    then show ?thesis unfolding ax by simp
  qed
  also have "\<dots> = 2 powr of_int (k + 53)" by (simp add: powr_add)
  finally have lt: "\<bar>x\<bar> < 2 powr of_int (k + 53)" .
  have "\<lfloor>log 2 \<bar>x\<bar>\<rfloor> < k + 53"
  proof (rule ccontr)
    assume "\<not> \<lfloor>log 2 \<bar>x\<bar>\<rfloor> < k + 53"
    then have "k + 53 \<le> \<lfloor>log 2 \<bar>x\<bar>\<rfloor>" by simp
    then have "2 powr of_int (k + 53) \<le> (2::real) powr of_int \<lfloor>log 2 \<bar>x\<bar>\<rfloor>" by (rule pow2_mono)
    then show False using binade(1)[OF pos] lt by linarith
  qed
  then have ek: "?e \<le> k" using k by (simp add: float64_exponent_def)
  have "2 powr of_int k = (2::real) powr of_int (?e + (k - ?e))" by simp
  also have "\<dots> = 2 powr of_int ?e * of_int (2 ^ nat (k - ?e))"
    using ek by (simp only: pow2_split pow2_nat)
  finally have pk: "2 powr of_int k = (2::real) powr of_int ?e * of_int (2 ^ nat (k - ?e))" .
  have q: "\<bar>x\<bar> / 2 powr of_int ?e = of_int (\<bar>m\<bar> * 2 ^ nat (k - ?e))"
    unfolding ax pk by simp
  have "float64 x = sgn x * (of_int (\<bar>m\<bar> * 2 ^ nat (k - ?e)) * 2 powr of_int ?e)"
    using False unfolding float64_def q rhe_of_int by simp
  also have "\<dots> = sgn x * \<bar>x\<bar>" unfolding ax pk by simp
  also have "\<dots> = x" by (simp add: sgn_mult_abs)
  finally show ?thesis .
qed

lemma float64_form:
  "\<exists>m k. float64 x = of_int m * 2 powr of_int k \<and> \<bar>m\<bar> < 2 ^ 53 \<and> - 1074 \<le> k"
proof (cases "x = 0")
  case True
  then show ?thesis by (intro exI[of _ 0] exI[of _ 0]) (simp add: float64_zero)
next
  case False
  define e where "e = float64_exponent x"
  define r where "r = round_half_even (\<bar>x\<bar> / 2 powr of_int e)"
  have pos: "0 < \<bar>x\<bar>" using False by simp
  have e_abs: "float64_exponent \<bar>x\<bar> = e" by (simp add: float64_exponent_def e_def)
  have "\<bar>x\<bar> / 2 powr of_int e \<le> of_int (2 ^ 53)"
    using quotient_less[OF pos] unfolding e_abs by simp
  then have r_le: "r \<le> 2 ^ 53" unfolding r_def by (rule rhe_le)
  have "of_int 0 \<le> \<bar>x\<bar> / 2 powr of_int e" by simp
  then have r_ge: "0 \<le> r" unfolding r_def by (rule rhe_ge)
  have fx: "float64 x = sgn x * (of_int r * 2 powr of_int e)"
    using False by (simp add: float64_def r_def e_def)
  have e_ge: "- 1074 \<le> e" unfolding e_def by (rule exponent_ge)
  show ?thesis
  proof (cases "r = 2 ^ 53")
    case True
    have "float64 x = sgn x * (2 ^ 52 * 2 powr of_int (e + 1))"
      unfolding fx True by (simp add: powr_add)
    then have "float64 x = of_int (if 0 < x then 2 ^ 52 else - (2 ^ 52)) * 2 powr of_int (e + 1)"
      using False by (simp add: sgn_real_def)
    moreover have "\<bar>if 0 < x then 2 ^ 52 else - (2 ^ 52) :: int\<bar> < 2 ^ 53" by simp
    moreover have "- 1074 \<le> e + 1" using e_ge by simp
    ultimately show ?thesis by blast
  next
    case False
    then have "r < 2 ^ 53" using r_le by simp
    then have "\<bar>(if 0 < x then r else - r)\<bar> < 2 ^ 53" using r_ge by simp
    moreover have "float64 x = of_int (if 0 < x then r else - r) * 2 powr of_int e"
      unfolding fx using \<open>x \<noteq> 0\<close> by (simp add: sgn_real_def)
    ultimately show ?thesis using e_ge by blast
  qed
qed

lemma float64_idem: "float64 (float64 x) = float64 x"
  using float64_form[of x] representable by metis

lemma float64_double:
  assumes "float64 x = x"
  shows "float64 (2 * x) = 2 * x"
proof -
  obtain m k where mk: "float64 x = of_int m * 2 powr of_int k" "\<bar>m\<bar> < 2 ^ 53" "- 1074 \<le> k"
    using float64_form[of x] by blast
  have "2 * x = of_int m * 2 powr of_int (k + 1)"
    using mk(1) assms by (simp add: powr_add)
  then show ?thesis using representable[of "2 * x" m "k + 1"] mk(2,3) by simp
qed

lemma float64_nonneg:
  assumes "0 \<le> x"
  shows "0 \<le> float64 x"
proof (cases "x = 0")
  case True
  then show ?thesis by (simp add: float64_zero)
next
  case False
  then have pos: "0 < x" using assms by simp
  have "of_int 0 \<le> x / 2 powr of_int (float64_exponent x)" using assms by simp
  then have "0 \<le> round_half_even (x / 2 powr of_int (float64_exponent x))" by (rule rhe_ge)
  then show ?thesis unfolding float64_pos[OF pos] by simp
qed

lemma float64_mono_pos:
  assumes "0 < x" and "x \<le> y"
  shows "float64 x \<le> float64 y"
proof -
  have ypos: "0 < y" using assms by simp
  let ?ex = "float64_exponent x"
  let ?ey = "float64_exponent y"
  have "log 2 x \<le> log 2 y" using assms by simp
  then have Exy: "\<lfloor>log 2 x\<rfloor> \<le> \<lfloor>log 2 y\<rfloor>" by (rule floor_mono)
  then have exy: "?ex \<le> ?ey" using assms ypos by (simp add: float64_exponent_def)
  show ?thesis
  proof (cases "?ex = ?ey")
    case True
    have "x / 2 powr of_int ?ey \<le> y / 2 powr of_int ?ey"
      using assms(2) by (simp add: divide_right_mono)
    then have "round_half_even (x / 2 powr of_int ?ey) \<le> round_half_even (y / 2 powr of_int ?ey)"
      by (rule rhe_mono)
    then show ?thesis unfolding float64_pos[OF assms(1)] float64_pos[OF ypos] True by simp
  next
    case False
    then have lt: "?ex + 1 \<le> ?ey" using exy by simp
    have ex: "?ex = max \<lfloor>log 2 x\<rfloor> (- 1022) - 52"
      using assms(1) by (simp add: float64_exponent_def)
    have ey: "?ey = max \<lfloor>log 2 y\<rfloor> (- 1022) - 52"
      using ypos by (simp add: float64_exponent_def)
    have Ey: "?ey = \<lfloor>log 2 y\<rfloor> - 52"
      using lt unfolding ex ey by linarith
    have "x / 2 powr of_int ?ex \<le> of_int (2 ^ 53)"
      using quotient_less[OF assms(1)] by simp
    then have "round_half_even (x / 2 powr of_int ?ex) \<le> 2 ^ 53" by (rule rhe_le)
    then have "(of_int (round_half_even (x / 2 powr of_int ?ex)) :: real) \<le> of_int (2 ^ 53)"
      by (simp only: of_int_le_iff)
    then have "float64 x \<le> 2 ^ 53 * 2 powr of_int ?ex"
      unfolding float64_pos[OF assms(1)] by simp
    also have "\<dots> = 2 ^ 52 * 2 powr of_int (?ex + 1)" by (simp add: powr_add)
    also have "\<dots> \<le> 2 ^ 52 * 2 powr of_int ?ey" using pow2_mono[OF lt] by simp
    finally have a: "float64 x \<le> 2 ^ 52 * 2 powr of_int ?ey" .
    have "2 powr of_int (?ey + 52) \<le> y" using binade(1)[OF ypos] unfolding Ey by simp
    then have "2 powr of_int ?ey * 2 ^ 52 \<le> y" by (simp add: powr_add)
    then have "of_int (2 ^ 52) \<le> y / 2 powr of_int ?ey"
      by (simp add: pos_le_divide_eq mult.commute)
    then have "2 ^ 52 \<le> round_half_even (y / 2 powr of_int ?ey)" by (rule rhe_ge)
    then have "(of_int (2 ^ 52) :: real) \<le> of_int (round_half_even (y / 2 powr of_int ?ey))"
      by (simp only: of_int_le_iff)
    then have "2 ^ 52 * 2 powr of_int ?ey \<le> float64 y"
      unfolding float64_pos[OF ypos] by simp
    then show ?thesis using a by linarith
  qed
qed

lemma float64_mono:
  assumes "x \<le> y"
  shows "float64 x \<le> float64 y"
proof -
  consider "0 < x" | "x \<le> 0" "0 \<le> y" | "y < 0" using assms by linarith
  then show ?thesis
  proof cases
    case 1
    then show ?thesis using float64_mono_pos assms by simp
  next
    case 2
    have "float64 x = - float64 (- x)" by (simp add: float64_minus)
    moreover have "0 \<le> float64 (- x)" using 2(1) by (simp add: float64_nonneg)
    moreover have "0 \<le> float64 y" using 2(2) by (rule float64_nonneg)
    ultimately show ?thesis by linarith
  next
    case 3
    have "float64 (- y) \<le> float64 (- x)" using float64_mono_pos[of "- y" "- x"] 3 assms by simp
    then show ?thesis by (simp add: float64_minus)
  qed
qed

lemma float64_normal:
  assumes "0 < x" and "2 powr of_int E \<le> x" and "x < 2 powr of_int (E + 1)" and "- 1022 \<le> E"
  shows "float64 x = of_int (round_half_even (x / 2 powr of_int (E - 52))) * 2 powr of_int (E - 52)"
proof -
  have "\<lfloor>log 2 x\<rfloor> = E" using floor_log_eq_powr_iff[of x 2 E] assms by simp
  then have "float64_exponent x = E - 52" using assms by (simp add: float64_exponent_def)
  then show ?thesis using float64_pos[OF assms(1)] by simp
qed

subsection \<open>Statistics, edges and counts\<close>

lemma np_min_Min: "xs \<noteq> [] \<Longrightarrow> np_min xs = Min (set xs)"
proof (cases xs)
  case (Cons a list)
  then show ?thesis using Min.set_eq_fold[of a list] by (simp add: np_min_def)
qed simp

lemma np_max_Max: "xs \<noteq> [] \<Longrightarrow> np_max xs = Max (set xs)"
proof (cases xs)
  case (Cons a list)
  then show ?thesis using Max.set_eq_fold[of a list] by (simp add: np_max_def)
qed simp

lemma Min_le_Max_list: "xs \<noteq> [] \<Longrightarrow> Min (set xs) \<le> Max (set (xs :: real list))"
  by (simp add: Min_le_iff)

lemma np_mean_single:
  assumes "float64 s = s"
  shows "np_mean [s] = s"
  by (simp add: np_mean_def np_add_reduce_def pairwise_sum.simps assms)

lemma np_mean_pair:
  assumes "float64 s = s"
  shows "np_mean [s, t] = float64 (float64 (s + t) / 2)"
  by (simp add: np_mean_def np_add_reduce_def pairwise_sum.simps assms float64_idem)

lemma rounded_midpoint_bounds:
  assumes "float64 s = s" and "float64 t = t" and "s \<le> t"
  shows "s \<le> float64 (float64 (s + t) / 2) \<and> float64 (float64 (s + t) / 2) \<le> t"
proof -
  have "float64 (2 * s) \<le> float64 (s + t)" using assms(3) by (intro float64_mono) simp
  then have "2 * s \<le> float64 (s + t)" by (simp only: float64_double[OF assms(1)])
  then have "s \<le> float64 (s + t) / 2" by simp
  then have "float64 s \<le> float64 (float64 (s + t) / 2)" by (rule float64_mono)
  then have lo: "s \<le> float64 (float64 (s + t) / 2)" by (simp only: assms(1))
  have "float64 (s + t) \<le> float64 (2 * t)" using assms(3) by (intro float64_mono) simp
  then have "float64 (s + t) \<le> 2 * t" by (simp only: float64_double[OF assms(2)])
  then have "float64 (s + t) / 2 \<le> t" by simp
  then have "float64 (float64 (s + t) / 2) \<le> float64 t" by (rule float64_mono)
  then have "float64 (float64 (s + t) / 2) \<le> t" by (simp only: assms(2))
  with lo show ?thesis by simp
qed

lemma np_median_eq:
  assumes "xs \<noteq> []" and "\<forall>x \<in> set xs. float64 x = x"
  shows "np_median xs =
           (if odd (length xs) then sort xs ! (length xs div 2)
            else float64 (float64 (sort xs ! (length xs div 2 - 1) + sort xs ! (length xs div 2)) / 2))"
proof -
  define s where "s = sort xs"
  define k where "k = length xs div 2"
  have len: "length s = length xs" by (simp add: s_def)
  have k: "k < length s" using assms(1) by (simp add: k_def len)
  have rep: "float64 (s ! i) = s ! i" if "i < length s" for i
  proof -
    have "s ! i \<in> set s" using that by simp
    then have "s ! i \<in> set xs" by (simp add: s_def)
    then show ?thesis using assms(2) by simp
  qed
  show ?thesis
  proof (cases "odd (length xs)")
    case True
    have "take 1 (drop k s) = [s ! k]"
      using k by (simp add: take_Suc_conv_app_nth[of 0] hd_drop_conv_nth take_Suc)
    then show ?thesis
      using True rep[OF k]
      by (simp add: np_median_def Let_def s_def[symmetric] k_def[symmetric] np_mean_single
          odd_iff_mod_2_eq_one)
  next
    case False
    then have k1: "1 \<le> k" using assms(1) by (cases "length xs") (auto simp: k_def elim: evenE)
    then have km: "k - 1 < length s" using k by simp
    have "drop (k - 1) s = s ! (k - 1) # drop k s"
      using Cons_nth_drop_Suc[OF km] k1 by simp
    moreover have "drop k s = s ! k # drop (Suc k) s"
      using Cons_nth_drop_Suc[OF k] by simp
    ultimately have "take 2 (drop (k - 1) s) = [s ! (k - 1), s ! k]"
      by (simp add: numeral_2_eq_2)
    then show ?thesis
      using False rep[OF km]
      by (simp add: np_median_def Let_def s_def[symmetric] k_def[symmetric] np_mean_pair
          odd_iff_mod_2_eq_one)
  qed
qed

lemma sorted_nth_bounds:
  assumes "k < length xs"
  shows "Min (set xs) \<le> sort xs ! k \<and> sort xs ! k \<le> Max (set (xs :: real list))"
proof -
  have "sort xs ! k \<in> set (sort xs)" using assms by (intro nth_mem) simp
  then have "sort xs ! k \<in> set xs" by simp
  then show ?thesis by simp
qed

lemma np_median_bounds:
  assumes "xs \<noteq> []" and "\<forall>x \<in> set xs. float64 x = x"
  shows "Min (set xs) \<le> np_median xs \<and> np_median xs \<le> Max (set xs)"
proof -
  define s where "s = sort xs"
  define k where "k = length xs div 2"
  have n: "0 < length xs" using assms by simp
  then have k1: "k < length xs" and k2: "k - 1 < length xs"
    by (auto simp: less_imp_diff_less k_def)
  note b1 = sorted_nth_bounds[OF k1, folded s_def]
  note b2 = sorted_nth_bounds[OF k2, folded s_def]
  have rep: "float64 (s ! i) = s ! i" if "i < length xs" for i
  proof -
    have "i < length s" using that by (simp add: s_def)
    then have "s ! i \<in> set s" by (rule nth_mem)
    then have "s ! i \<in> set xs" by (simp add: s_def)
    then show ?thesis using assms(2) by simp
  qed
  have "sorted s" by (simp add: s_def)
  then have le: "s ! (k - 1) \<le> s ! k"
    using k1 by (intro sorted_nth_mono) (simp_all add: s_def)
  note m = rounded_midpoint_bounds[OF rep[OF k2] rep[OF k1] le]
  show ?thesis
    unfolding np_median_eq[OF assms] s_def[symmetric] k_def[symmetric]
    using b1 b2 m by auto
qed

lemma np_linspace_length: "length (np_linspace a b num) = num"
  by (simp add: np_linspace_def Let_def)

lemma np_linspace_last: "0 < num \<Longrightarrow> np_linspace a b num ! (num - 1) = b"
  by (simp add: np_linspace_def Let_def)

lemma np_linspace_nth:
  assumes "i < num - 1"
  shows "np_linspace a b num ! i =
           (if float64 (float64 (b - a) / real (num - 1)) = 0
            then float64 (float64 (float64 (real i / real (num - 1)) * float64 (b - a)) + a)
            else float64 (float64 (real i * float64 (float64 (b - a) / real (num - 1))) + a))"
proof -
  have "i < num" using assms by simp
  then show ?thesis using assms by (simp add: np_linspace_def Let_def)
qed

lemma np_linspace_first:
  assumes "1 < num" and "float64 a = a"
  shows "np_linspace a b num ! 0 = a"
  using assms by (simp add: np_linspace_nth float64_zero)

lemma np_linspace_mono:
  assumes "a \<le> b" and "i \<le> j" and "j < num - 1"
  shows "np_linspace a b num ! i \<le> np_linspace a b num ! j"
proof -
  define delta where "delta = float64 (b - a)"
  define step where "step = float64 (delta / real (num - 1))"
  have d: "0 \<le> delta" unfolding delta_def using assms(1) by (intro float64_nonneg) simp
  then have s: "0 \<le> step" unfolding step_def by (intro float64_nonneg) simp
  have ij: "real i \<le> real j" using assms(2) by simp
  have i: "i < num - 1" using assms by simp
  show ?thesis
  proof (cases "step = 0")
    case True
    have "real i / real (num - 1) \<le> real j / real (num - 1)"
      using ij by (intro divide_right_mono) simp_all
    then have "float64 (real i / real (num - 1)) \<le> float64 (real j / real (num - 1))"
      by (rule float64_mono)
    then have "float64 (real i / real (num - 1)) * delta \<le> float64 (real j / real (num - 1)) * delta"
      using d by (intro mult_right_mono)
    then have "float64 (float64 (real i / real (num - 1)) * delta)
               \<le> float64 (float64 (real j / real (num - 1)) * delta)"
      by (rule float64_mono)
    then have "float64 (float64 (float64 (real i / real (num - 1)) * delta) + a)
               \<le> float64 (float64 (float64 (real j / real (num - 1)) * delta) + a)"
      by (intro float64_mono) simp
    then show ?thesis
      using True unfolding np_linspace_nth[OF i] np_linspace_nth[OF assms(3)]
        delta_def[symmetric] step_def[symmetric] by simp
  next
    case False
    have "real i * step \<le> real j * step" using ij s by (intro mult_right_mono)
    then have "float64 (real i * step) \<le> float64 (real j * step)" by (rule float64_mono)
    then have "float64 (float64 (real i * step) + a) \<le> float64 (float64 (real j * step) + a)"
      by (intro float64_mono) simp
    then show ?thesis
      using False unfolding np_linspace_nth[OF i] np_linspace_nth[OF assms(3)]
        delta_def[symmetric] step_def[symmetric] by simp
  qed
qed

lemma exactly_one_bin:
  assumes mono: "\<And>i j. i \<le> j \<Longrightarrow> j < n \<Longrightarrow> es ! i \<le> es ! j"
    and n: "0 < n" and lo: "es ! 0 \<le> x" and hi: "x \<le> es ! n"
  shows "\<exists>j<n. \<forall>i<n. in_bin es n i x \<longleftrightarrow> i = j"
proof -
  define S where "S = {i. i < n \<and> es ! i \<le> x}"
  have fin: "finite S" unfolding S_def by simp
  have "0 \<in> S" unfolding S_def using n lo by simp
  then have ne: "S \<noteq> {}" by auto
  define j where "j = Max S"
  have "j \<in> S" unfolding j_def using fin ne by (rule Max_in)
  then have jn: "j < n" and jx: "es ! j \<le> x" unfolding S_def by simp_all
  have jmax: "i \<le> j" if "i < n" "es ! i \<le> x" for i
  proof -
    have "i \<in> S" unfolding S_def using that by simp
    then show ?thesis unfolding j_def using fin by (intro Max_ge)
  qed
  have "in_bin es n i x \<longleftrightarrow> i = j" if i: "i < n" for i
  proof
    assume b: "in_bin es n i x"
    then have "es ! i \<le> x" by (simp add: in_bin_def)
    then have ij: "i \<le> j" using i by (rule jmax[rotated])
    show "i = j"
    proof (rule ccontr)
      assume "i \<noteq> j"
      then have lt: "i + 1 \<le> j" using ij by simp
      then have "i + 1 \<noteq> n" using jn by simp
      then have "x < es ! (i + 1)" using b by (simp add: in_bin_def)
      moreover have "es ! (i + 1) \<le> es ! j" using lt jn by (rule mono)
      ultimately show False using jx by simp
    qed
  next
    assume ij: "i = j"
    show "in_bin es n i x"
    proof (cases "j + 1 = n")
      case True
      then show ?thesis using jx hi ij by (simp add: in_bin_def)
    next
      case False
      then have lt: "j + 1 < n" using jn by simp
      have "x < es ! (j + 1)"
      proof (rule ccontr)
        assume "\<not> x < es ! (j + 1)"
        then have "es ! (j + 1) \<le> x" by simp
        from jmax[OF lt this] show False by simp
      qed
      then show ?thesis using jx False ij by (simp add: in_bin_def)
    qed
  qed
  with jn show ?thesis by blast
qed

lemma indicator_sum_one:
  assumes "j < n"
  shows "sum_list (map (\<lambda>i. if i = j then 1 else 0) [0..<n]) = (1::nat)"
  using assms by (simp add: interv_sum_list_conv_sum_set_nat)

lemma counts_sum:
  assumes "\<forall>x \<in> set xs. \<exists>j<n. \<forall>i<n. P i x \<longleftrightarrow> i = j"
  shows "sum_list (map (\<lambda>i. length (filter (P i) xs)) [0..<n]) = length xs"
  using assms
proof (induction xs)
  case Nil
  then show ?case by simp
next
  case (Cons x xs)
  from Cons.prems obtain j where j: "j < n" and u: "\<forall>i<n. P i x \<longleftrightarrow> i = j" by auto
  have eq: "map (\<lambda>i. length (filter (P i) (x # xs))) [0..<n]
        = map (\<lambda>i. (if i = j then 1 else 0) + length (filter (P i) xs)) [0..<n]"
    using u by (intro map_cong) auto
  have IH: "sum_list (map (\<lambda>i. length (filter (P i) xs)) [0..<n]) = length xs"
    using Cons by simp
  have "sum_list (map (\<lambda>i. length (filter (P i) (x # xs))) [0..<n])
        = sum_list (map (\<lambda>i. if i = j then 1 else 0) [0..<n])
          + sum_list (map (\<lambda>i. length (filter (P i) xs)) [0..<n])"
    by (simp only: eq sum_list_addf)
  also have "\<dots> = 1 + length xs"
    by (simp only: indicator_sum_one[OF j] IH)
  finally show ?case by simp
qed

lemma outer_edges_cases:
  assumes "xs \<noteq> []"
  shows "outer_edges xs =
           (if Min (set xs) < Max (set xs) then (Min (set xs), Max (set xs))
            else (float64 (Min (set xs) - 1 / 2), float64 (Max (set xs) + 1 / 2)))"
  using Min_le_Max_list[OF assms]
  by (auto simp: outer_edges_def Let_def np_min_Min[OF assms] np_max_Max[OF assms])

lemma outer_edges_props:
  assumes "xs \<noteq> []" and "\<forall>x \<in> set xs. float64 x = x" and "outer_edges xs = (a, b)"
  shows "float64 a = a" and "a \<le> Min (set xs)" and "Max (set xs) \<le> b"
proof -
  have lo: "float64 (Min (set xs)) = Min (set xs)"
    using assms(1,2) Min_in[of "set xs"] by simp
  have hi: "float64 (Max (set xs)) = Max (set xs)"
    using assms(1,2) Max_in[of "set xs"] by simp
  have "float64 (Min (set xs) - 1 / 2) \<le> float64 (Min (set xs))" by (intro float64_mono) simp
  then have l: "float64 (Min (set xs) - 1 / 2) \<le> Min (set xs)" by (simp only: lo)
  have "float64 (Max (set xs)) \<le> float64 (Max (set xs) + 1 / 2)" by (intro float64_mono) simp
  then have h: "Max (set xs) \<le> float64 (Max (set xs) + 1 / 2)" by (simp only: hi)
  from assms(3) show "float64 a = a"
    unfolding outer_edges_cases[OF assms(1)] using lo by (auto simp: float64_idem split: if_splits)
  from assms(3) show "a \<le> Min (set xs)"
    unfolding outer_edges_cases[OF assms(1)] using l by (auto split: if_splits)
  from assms(3) show "Max (set xs) \<le> b"
    unfolding outer_edges_cases[OF assms(1)] using h by (auto split: if_splits)
qed

lemma histogram_counts_sum:
  assumes "xs \<noteq> []" and "\<forall>x \<in> set xs. float64 x = x" and "0 < n"
  shows "sum_list (fst (np_histogram xs n)) = length xs"
proof -
  obtain a b where ab: "outer_edges xs = (a, b)" by (cases "outer_edges xs")
  note p = outer_edges_props[OF assms(1,2) ab]
  have le: "a \<le> b" using p(2,3) Min_le_Max_list[OF assms(1)] by linarith
  define es where "es = np_linspace a b (n + 1)"
  have mono: "es ! i \<le> es ! j" if "i \<le> j" "j < n" for i j
    unfolding es_def using np_linspace_mono[OF le that(1), of "n + 1"] that(2) by simp
  have first: "es ! 0 = a" unfolding es_def using assms(3) p(1) by (intro np_linspace_first) simp_all
  have last: "es ! n = b" unfolding es_def using np_linspace_last[of "n + 1" a b] by simp
  have "\<forall>x \<in> set xs. \<exists>j<n. \<forall>i<n. in_bin es n i x \<longleftrightarrow> i = j"
  proof
    fix x assume "x \<in> set xs"
    then have "Min (set xs) \<le> x" "x \<le> Max (set xs)" by simp_all
    with p have "es ! 0 \<le> x" "x \<le> es ! n" unfolding first last by linarith+
    from exactly_one_bin[of n es, OF mono assms(3) this]
    show "\<exists>j<n. \<forall>i<n. in_bin es n i x \<longleftrightarrow> i = j" .
  qed
  from counts_sum[OF this] show ?thesis
    by (simp add: np_histogram_def ab Let_def es_def)
qed

lemma build_nonempty:
  assumes "xs \<noteq> []"
  shows "build_similarity_histogram_response d xs n votes =
     \<lparr>scores = d,
      histogram = \<lparr>bins = map (\<lambda>(a, b). float64 (float64 (a + b) / 2))
                             (zip (butlast (snd (np_histogram xs 60))) (tl (snd (np_histogram xs 60)))),
                   counts = fst (np_histogram xs 60), bin_edges = snd (np_histogram xs 60)\<rparr>,
      statistics = \<lparr>stat_min = np_min xs, stat_max = np_max xs,
                    stat_mean = np_mean xs, stat_median = np_median xs\<rparr>,
      total_items = n, committee_votes = votes\<rparr>"
  using assms by (simp add: build_similarity_histogram_response_def Let_def split: prod.splits)

lemma histogram_edges:
  assumes "xs \<noteq> []"
  shows "snd (np_histogram xs n) =
           np_linspace (fst (outer_edges xs)) (snd (outer_edges xs)) (n + 1)"
    and "length (fst (np_histogram xs n)) = n"
  by (simp_all add: np_histogram_def Let_def split: prod.splits)

lemma centers_nth:
  assumes "i + 1 < length es"
  shows "map (\<lambda>(a, b). float64 (float64 (a + b) / 2)) (zip (butlast es) (tl es)) ! i
         = float64 (float64 (es ! i + es ! (i + 1)) / 2)"
  using assms by (simp add: nth_butlast nth_tl)

lemma float64_of_int: "\<bar>m\<bar> < 2 ^ 53 \<Longrightarrow> float64 (of_int m) = of_int m"
  using representable[of "of_int m" m 0] by simp

lemma float64_half_int: "\<bar>m\<bar> < 2 ^ 53 \<Longrightarrow> float64 (of_int m / 2) = of_int m / 2"
  using representable[of "of_int m / 2" m "- 1"] by (simp add: powr_minus_divide)

lemma float64_small_values:
  "float64 1 = 1" "float64 2 = 2" "float64 3 = 3" "float64 4 = 4"
  "float64 (1 / 2) = 1 / 2" "float64 (3 / 2) = 3 / 2"
  using float64_of_int[of 1] float64_of_int[of 2] float64_of_int[of 3] float64_of_int[of 4]
    float64_half_int[of 1] float64_half_int[of 3]
  by simp_all

lemma float64_tenth: "float64 (1 / 10) = 3602879701896397 / 2 ^ 55"
proof -
  have "float64 (1 / 10) = of_int (round_half_even ((1 / 10) / 2 powr of_int (- 4 - 52)))
                             * 2 powr of_int (- 4 - 52)"
    by (rule float64_normal) (simp_all add: powr_minus_divide)
  also have "\<dots> = 3602879701896397 / 2 ^ 55"
    by (simp add: powr_minus_divide round_half_even_def Let_def)
  finally show ?thesis .
qed

lemma float64_tenth_fixed: "float64 (3602879701896397 / 2 ^ 55) = 3602879701896397 / 2 ^ 55"
  using representable[of "3602879701896397 / 2 ^ 55" 3602879701896397 "- 55"]
  by (simp add: powr_minus_divide)

lemma float64_two_tenths: "float64 (3602879701896397 / 2 ^ 54) = 3602879701896397 / 2 ^ 54"
  using representable[of "3602879701896397 / 2 ^ 54" 3602879701896397 "- 54"]
  by (simp add: powr_minus_divide)

lemma float64_three_tenths: "float64 (10808639105689191 / 2 ^ 55) = 5404319552844596 / 2 ^ 54"
proof -
  have "float64 (10808639105689191 / 2 ^ 55) =
          of_int (round_half_even ((10808639105689191 / 2 ^ 55) / 2 powr of_int (- 2 - 52)))
            * 2 powr of_int (- 2 - 52)"
    by (rule float64_normal) (simp_all add: powr_minus_divide)
  also have "\<dots> = 5404319552844596 / 2 ^ 54"
    by (simp add: powr_minus_divide round_half_even_def Let_def)
  finally show ?thesis .
qed

lemma float64_sum_fixed: "float64 (5404319552844596 / 2 ^ 54) = 5404319552844596 / 2 ^ 54"
  using representable[of "5404319552844596 / 2 ^ 54" 5404319552844596 "- 54"]
  by (simp add: powr_minus_divide)

lemma float64_third_of_sum:
  "float64 (5404319552844596 / 2 ^ 54 / 3) = 7205759403792795 / 2 ^ 56"
proof -
  have "float64 (5404319552844596 / 2 ^ 54 / 3) =
          of_int (round_half_even ((5404319552844596 / 2 ^ 54 / 3) / 2 powr of_int (- 4 - 52)))
            * 2 powr of_int (- 4 - 52)"
    by (rule float64_normal) (simp_all add: powr_minus_divide)
  also have "\<dots> = 7205759403792795 / 2 ^ 56"
    by (simp add: powr_minus_divide round_half_even_def Let_def)
  finally show ?thesis .
qed

lemma pairwise_sum_three:
  "pairwise_sum [x, y, z] = float64 (float64 (float64 (0 + x) + y) + z)"
  by (simp add: pairwise_sum.simps)

lemma np_mean_three_tenths:
  "np_mean [float64 (1 / 10), float64 (1 / 10), float64 (1 / 10)] = 7205759403792795 / 2 ^ 56"
proof -
  define x :: real where "x = 3602879701896397 / 2 ^ 55"
  define x2 :: real where "x2 = 3602879701896397 / 2 ^ 54"
  define x3 :: real where "x3 = 10808639105689191 / 2 ^ 55"
  define s :: real where "s = 5404319552844596 / 2 ^ 54"
  have f1: "float64 x = x" unfolding x_def by (rule float64_tenth_fixed)
  have f2: "float64 x2 = x2" unfolding x2_def by (rule float64_two_tenths)
  have f3: "float64 x3 = s" unfolding x3_def s_def by (rule float64_three_tenths)
  have f4: "float64 s = s" unfolding s_def by (rule float64_sum_fixed)
  have a1: "0 + x = x" by simp
  have a2: "x + x = x2" unfolding x_def x2_def by simp
  have a3: "x2 + x = x3" unfolding x_def x2_def x3_def by simp
  have a4: "0 + s = s" by simp
  have "pairwise_sum [x, x, x] = s"
    by (simp only: pairwise_sum_three a1 f1 a2 f2 a3 f3)
  then have "np_add_reduce [x, x, x] = s"
    by (simp only: np_add_reduce_def a4 f4)
  then have "np_mean [x, x, x] = float64 (s / 3)"
    by (simp add: np_mean_def)
  also have "\<dots> = 7205759403792795 / 2 ^ 56"
    unfolding s_def by (rule float64_third_of_sum)
  finally show ?thesis unfolding float64_tenth x_def .
qed

lemma float64_of_nat: "i < 2 ^ 53 \<Longrightarrow> float64 (real i) = real i"
  using float64_of_int[of "int i"] by simp

lemma np_linspace_0_60:
  assumes "i \<le> 60"
  shows "np_linspace 0 60 61 ! i = real i"
proof (cases "i = 60")
  case True
  then show ?thesis using np_linspace_last[of 61 0 60] by simp
next
  case False
  have f60: "float64 60 = 60" using float64_of_int[of 60] by simp
  have fi: "float64 (real i) = real i" using assms by (intro float64_of_nat) simp
  from False have "i < 61 - 1" using assms by simp
  from np_linspace_nth[OF this, of 0 60] show ?thesis
    by (simp add: f60 float64_small_values fi)
qed

text \<open>
  C8 (amended). On the empty score vector the builder returns empty bin, count and edge
  sequences and the four statistics 0. Take a non-empty vector of float64 scores with
  minimum \<open>lo\<close> and maximum \<open>hi\<close>, none of whose operations overflows, and whose range is
  wide enough for 60 bins of positive width (the 61 edges are strictly increasing). The
  builder returns 60 bins and 61 edges, the points of \<open>np.linspace\<close> from \<open>lo\<close> to \<open>hi\<close>
  when \<open>lo < hi\<close>, and from \<open>lo - 0.5\<close> to \<open>hi + 0.5\<close> when all scores are equal: the first
  edge and the last edge are these two bounds, and edge \<open>i\<close> is \<open>i\<close> steps of a sixtieth of
  the range above the first, every operation rounded to float64. The bin centers are the
  float64 midpoints of adjacent edges; the counts sum to the number of scores; the
  statistics are the minimum, the maximum, \<open>np.mean\<close> and the median (the middle element of
  the sorted scores, or the float64 midpoint of the two middle ones) of the scores, and the
  median lies between the minimum and the maximum.
\<close>

theorem histogram_builder:
  "(let r = build_similarity_histogram_response d [] n votes
    in scores r = [] \<and> bins (histogram r) = [] \<and> counts (histogram r) = [] \<and>
       bin_edges (histogram r) = [] \<and>
       stat_min (statistics r) = 0 \<and> stat_max (statistics r) = 0 \<and>
       stat_mean (statistics r) = 0 \<and> stat_median (statistics r) = 0) \<and>
   (let r = build_similarity_histogram_response d xs n votes;
        es = bin_edges (histogram r);
        lo = Min (set xs); hi = Max (set xs);
        a = (if lo < hi then lo else float64 (lo - 1 / 2));
        b = (if lo < hi then hi else float64 (hi + 1 / 2));
        delta = float64 (b - a); step = float64 (delta / 60)
    in xs \<noteq> [] \<and> (\<forall>x \<in> set xs. float64 x = x \<and> real (length xs) * \<bar>x\<bar> \<le> 2 ^ 1022) \<and>
       sorted_wrt (<) es \<longrightarrow>
         length (bins (histogram r)) = 60 \<and> length (counts (histogram r)) = 60 \<and>
         length es = 61 \<and> es ! 0 = a \<and> es ! 60 = b \<and>
         (\<forall>i < 60. es ! i =
            (if step = 0 then float64 (float64 (float64 (real i / 60) * delta) + a)
             else float64 (float64 (real i * step) + a))) \<and>
         (\<forall>i < 60. bins (histogram r) ! i = float64 (float64 (es ! i + es ! (i + 1)) / 2)) \<and>
         sum_list (counts (histogram r)) = length xs \<and>
         stat_min (statistics r) = lo \<and> stat_max (statistics r) = hi \<and>
         stat_mean (statistics r) = np_mean xs \<and>
         stat_median (statistics r) =
           (if odd (length xs) then sort xs ! (length xs div 2)
            else float64 (float64 (sort xs ! (length xs div 2 - 1) + sort xs ! (length xs div 2)) / 2)) \<and>
         lo \<le> stat_median (statistics r) \<and> stat_median (statistics r) \<le> hi)"
proof (intro conjI)
  show "let r = build_similarity_histogram_response d [] n votes
    in scores r = [] \<and> bins (histogram r) = [] \<and> counts (histogram r) = [] \<and>
       bin_edges (histogram r) = [] \<and>
       stat_min (statistics r) = 0 \<and> stat_max (statistics r) = 0 \<and>
       stat_mean (statistics r) = 0 \<and> stat_median (statistics r) = 0"
    by (simp add: build_similarity_histogram_response_def empty_response_def)
next
  have main: "length (bins (histogram r)) = 60 \<and> length (counts (histogram r)) = 60 \<and>
         length es = 61 \<and> es ! 0 = a \<and> es ! 60 = b \<and>
         (\<forall>i < 60. es ! i =
            (if step = 0 then float64 (float64 (float64 (real i / 60) * delta) + a)
             else float64 (float64 (real i * step) + a))) \<and>
         (\<forall>i < 60. bins (histogram r) ! i = float64 (float64 (es ! i + es ! (i + 1)) / 2)) \<and>
         sum_list (counts (histogram r)) = length xs \<and>
         stat_min (statistics r) = lo \<and> stat_max (statistics r) = hi \<and>
         stat_mean (statistics r) = np_mean xs \<and>
         stat_median (statistics r) =
           (if odd (length xs) then sort xs ! (length xs div 2)
            else float64 (float64 (sort xs ! (length xs div 2 - 1) + sort xs ! (length xs div 2)) / 2)) \<and>
         lo \<le> stat_median (statistics r) \<and> stat_median (statistics r) \<le> hi"
    if ne: "xs \<noteq> []" and rep: "\<forall>x \<in> set xs. float64 x = x"
      and r: "r = build_similarity_histogram_response d xs n votes"
      and es: "es = bin_edges (histogram r)"
      and lo: "lo = Min (set xs)" and hi: "hi = Max (set xs)"
      and a: "a = (if lo < hi then lo else float64 (lo - 1 / 2))"
      and b: "b = (if lo < hi then hi else float64 (hi + 1 / 2))"
      and delta: "delta = float64 (b - a)" and step: "step = float64 (delta / 60)"
    for r es lo hi a b delta step
  proof -
    have oe: "outer_edges xs = (a, b)"
      unfolding outer_edges_cases[OF ne] a b lo hi by simp
    have es': "es = np_linspace a b 61"
      unfolding es r build_nonempty[OF ne] using histogram_edges(1)[OF ne, of 60] oe by simp
    have len_es: "length es = 61" by (simp add: es' np_linspace_length)
    have first: "es ! 0 = a"
      unfolding es' by (rule np_linspace_first) (simp_all add: outer_edges_props(1)[OF ne rep oe])
    have last: "es ! 60 = b"
      unfolding es' using np_linspace_last[of 61 a b] by simp
    have nth_es: "es ! i = (if step = 0 then float64 (float64 (float64 (real i / 60) * delta) + a)
                            else float64 (float64 (real i * step) + a))" if "i < 60" for i
      unfolding es' step delta using that by (simp add: np_linspace_nth)
    have len_cs: "length (counts (histogram r)) = 60"
      unfolding r build_nonempty[OF ne] using histogram_edges(2)[OF ne, of 60] by simp
    have bins: "bins (histogram r) = map (\<lambda>(a, b). float64 (float64 (a + b) / 2)) (zip (butlast es) (tl es))"
      unfolding es r build_nonempty[OF ne] by simp
    have len_bins: "length (bins (histogram r)) = 60"
      unfolding bins by (simp add: len_es)
    have nth_bins: "bins (histogram r) ! i = float64 (float64 (es ! i + es ! (i + 1)) / 2)"
      if "i < 60" for i
      unfolding bins using that by (intro centers_nth) (simp add: len_es)
    have cs: "sum_list (counts (histogram r)) = length xs"
      unfolding r build_nonempty[OF ne] using histogram_counts_sum[OF ne rep, of 60] by simp
    note med = np_median_eq[OF ne rep]
    note med_b = np_median_bounds[OF ne rep, unfolded med, folded lo hi]
    have stats: "stat_min (statistics r) = lo" "stat_max (statistics r) = hi"
      "stat_mean (statistics r) = np_mean xs" "stat_median (statistics r) = np_median xs"
      unfolding r build_nonempty[OF ne] lo hi by (simp_all add: np_min_Min[OF ne] np_max_Max[OF ne])
    show ?thesis
      using len_bins len_cs len_es first last nth_es nth_bins cs med_b
      unfolding stats med by simp
  qed
  show "let r = build_similarity_histogram_response d xs n votes;
        es = bin_edges (histogram r);
        lo = Min (set xs); hi = Max (set xs);
        a = (if lo < hi then lo else float64 (lo - 1 / 2));
        b = (if lo < hi then hi else float64 (hi + 1 / 2));
        delta = float64 (b - a); step = float64 (delta / 60)
    in xs \<noteq> [] \<and> (\<forall>x \<in> set xs. float64 x = x \<and> real (length xs) * \<bar>x\<bar> \<le> 2 ^ 1022) \<and>
       sorted_wrt (<) es \<longrightarrow>
         length (bins (histogram r)) = 60 \<and> length (counts (histogram r)) = 60 \<and>
         length es = 61 \<and> es ! 0 = a \<and> es ! 60 = b \<and>
         (\<forall>i < 60. es ! i =
            (if step = 0 then float64 (float64 (float64 (real i / 60) * delta) + a)
             else float64 (float64 (real i * step) + a))) \<and>
         (\<forall>i < 60. bins (histogram r) ! i = float64 (float64 (es ! i + es ! (i + 1)) / 2)) \<and>
         sum_list (counts (histogram r)) = length xs \<and>
         stat_min (statistics r) = lo \<and> stat_max (statistics r) = hi \<and>
         stat_mean (statistics r) = np_mean xs \<and>
         stat_median (statistics r) =
           (if odd (length xs) then sort xs ! (length xs div 2)
            else float64 (float64 (sort xs ! (length xs div 2 - 1) + sort xs ! (length xs div 2)) / 2)) \<and>
         lo \<le> stat_median (statistics r) \<and> stat_median (statistics r) \<le> hi"
    unfolding Let_def
    apply (intro impI)
    apply (elim conjE)
    apply (rule main[OF _ _ refl refl refl refl refl refl refl refl])
     apply assumption
    apply simp
    done
qed

theorem histogram_builder_witness:
  "[0, 60 :: real] \<noteq> [] \<and> float64 0 = 0 \<and> float64 60 = 60 \<and>
   real (length [0, 60 :: real]) * \<bar>0\<bar> \<le> 2 ^ 1022 \<and>
   real (length [0, 60 :: real]) * \<bar>60\<bar> \<le> 2 ^ 1022 \<and>
   (let r = build_similarity_histogram_response [(1, 0), (2, 60)] [0, 60] 2 None
    in sorted_wrt (<) (bin_edges (histogram r)) \<and>
       length (bins (histogram r)) = 60 \<and> length (bin_edges (histogram r)) = 61 \<and>
       bin_edges (histogram r) ! 0 = 0 \<and> bin_edges (histogram r) ! 1 = 1 \<and>
       bin_edges (histogram r) ! 60 = 60 \<and>
       bins (histogram r) ! 0 = 1 / 2 \<and>
       sum_list (counts (histogram r)) = 2 \<and>
       stat_min (statistics r) = 0 \<and> stat_max (statistics r) = 60 \<and>
       stat_median (statistics r) = 30)"
proof -
  define r where "r = build_similarity_histogram_response [(1, 0), (2, 60)] [0, 60] 2 None"
  define es where "es = bin_edges (histogram r)"
  have f: "float64 0 = 0" "float64 60 = 60" "float64 30 = 30"
    using float64_of_int[of 60] float64_of_int[of 30] by (simp_all add: float64_zero)
  have oe: "outer_edges [0, 60] = (0, 60)"
    by (simp add: outer_edges_def np_min_def np_max_def)
  have es: "es = np_linspace 0 60 61"
    unfolding es_def r_def by (simp add: build_nonempty histogram_edges(1) oe)
  have len: "length es = 61" unfolding es by (rule np_linspace_length)
  have nth: "es ! i = real i" if "i \<le> 60" for i
    unfolding es using that by (rule np_linspace_0_60)
  have srt: "sorted_wrt (<) es"
    unfolding sorted_wrt_iff_nth_less len using nth by simp
  have e0: "es ! 0 = 0" and e1: "es ! 1 = 1" and e60: "es ! 60 = 60"
    using nth[of 0] nth[of 1] nth[of 60] by simp_all
  have h: "[0, 60 :: real] \<noteq> [] \<and>
      (\<forall>x \<in> set [0, 60 :: real]. float64 x = x \<and> real (length [0, 60 :: real]) * \<bar>x\<bar> \<le> 2 ^ 1022) \<and>
      sorted_wrt (<) es"
    using srt by (simp add: f)
  have s: "sort [0, 60 :: real] = [0, 60]" by simp
  from histogram_builder[where d = "[(1, 0), (2, 60)]" and xs = "[0, 60]" and n = 2 and votes = None,
      THEN conjunct2, unfolded Let_def, folded r_def, folded es_def, rule_format, OF h]
  have c: "length (bins (histogram r)) = 60" "sum_list (counts (histogram r)) = 2"
    "bins (histogram r) ! 0 = float64 (float64 (es ! 0 + es ! (0 + 1)) / 2)"
    "stat_min (statistics r) = 0" "stat_max (statistics r) = 60"
    "stat_median (statistics r) = 30"
    by (simp_all add: s f)
  have b0: "bins (histogram r) ! 0 = 1 / 2"
    unfolding c(3) using e0 e1 by (simp add: float64_small_values)
  show ?thesis
    unfolding Let_def r_def[symmetric] es_def[symmetric]
    using srt len e0 e1 e60 f(1,2) c(1,2,4,5,6) b0 by simp
qed

text \<open>
  C8 does not hold as stated. For the single score 1 the edges run from 0.5 to 1.5, while
  the minimum and the maximum are both 1. For three scores 0.1 (the float64
  \<open>3602879701896397 / 2\<^sup>5\<^sup>5\<close>) the sum rounds up to \<open>5404319552844596 / 2\<^sup>5\<^sup>4\<close> and its
  third to \<open>7205759403792795 / 2\<^sup>5\<^sup>6\<close>: the mean is one unit in the last place above the
  maximum.
\<close>

theorem bins_wider_than_range_and_mean_above_max:
  "bin_edges (histogram (build_similarity_histogram_response [(1, 1)] [1] 1 None)) ! 0 = 1 / 2 \<and>
   bin_edges (histogram (build_similarity_histogram_response [(1, 1)] [1] 1 None)) ! 60 = 3 / 2 \<and>
   stat_min (statistics (build_similarity_histogram_response [(1, 1)] [1] 1 None)) = 1 \<and>
   stat_max (statistics (build_similarity_histogram_response [(1, 1)] [1] 1 None)) = 1 \<and>
   (let x = float64 (1 / 10);
        r = build_similarity_histogram_response [(1, x), (2, x), (3, x)] [x, x, x] 3 None
    in x = 3602879701896397 / 2 ^ 55 \<and>
       stat_max (statistics r) = 3602879701896397 / 2 ^ 55 \<and>
       stat_mean (statistics r) = 7205759403792795 / 2 ^ 56 \<and>
       stat_max (statistics r) < stat_mean (statistics r))"
proof -
  have oe: "outer_edges [1] = (1 / 2, 3 / 2)"
    by (simp add: outer_edges_def np_min_def np_max_def float64_small_values)
  have es: "snd (np_histogram [1] 60) = np_linspace (1 / 2) (3 / 2) 61"
    by (simp add: histogram_edges(1) oe)
  have e0: "np_linspace (1 / 2) (3 / 2) 61 ! 0 = 1 / 2"
    by (rule np_linspace_first) (simp_all add: float64_small_values)
  have e60: "np_linspace (1 / 2) (3 / 2) 61 ! 60 = 3 / 2"
    using np_linspace_last[of 61 "1 / 2" "3 / 2"] by simp
  have one: "bin_edges (histogram (build_similarity_histogram_response [(1, 1)] [1] 1 None)) ! 0 = 1 / 2 \<and>
   bin_edges (histogram (build_similarity_histogram_response [(1, 1)] [1] 1 None)) ! 60 = 3 / 2 \<and>
   stat_min (statistics (build_similarity_histogram_response [(1, 1)] [1] 1 None)) = 1 \<and>
   stat_max (statistics (build_similarity_histogram_response [(1, 1)] [1] 1 None)) = 1"
    by (simp add: build_nonempty es e0 e60 np_min_def np_max_def)
  define x where "x = float64 (1 / 10)"
  have x: "x = 3602879701896397 / 2 ^ 55" unfolding x_def by (rule float64_tenth)
  have mx: "np_max [x, x, x] = x" by (simp add: np_max_def)
  have mean: "np_mean [x, x, x] = 7205759403792795 / 2 ^ 56"
    unfolding x_def by (rule np_mean_three_tenths)
  have lt: "x < 7205759403792795 / 2 ^ 56" unfolding x by simp
  have three: "let r = build_similarity_histogram_response [(1, x), (2, x), (3, x)] [x, x, x] 3 None
    in x = 3602879701896397 / 2 ^ 55 \<and>
       stat_max (statistics r) = 3602879701896397 / 2 ^ 55 \<and>
       stat_mean (statistics r) = 7205759403792795 / 2 ^ 56 \<and>
       stat_max (statistics r) < stat_mean (statistics r)"
    unfolding Let_def using x lt by (simp add: build_nonempty mx mean)
  show ?thesis using one three unfolding x_def Let_def by simp
qed

section \<open>Kennard-Stone selection\<close>



















lemma kennard_stone_seed_pair:
  assumes "n < int (length X)" and "n \<le> 2" and "X \<noteq> []"
  shows "\<exists>i j. kennard_stone X n = Inr [i, j]"
proof -
  have "ks_loop D n [i, j] = [i, j]" for D i j
    using assms(2) by (subst ks_loop.simps) simp
  then show ?thesis
    using assms(1,3) by (simp add: kennard_stone_def Let_def)
qed

text \<open>
  C2, at a concrete request. The blocks 1, 4, 5 have metrics and one suggestion is asked
  for: the selection starts from the pair of points at maximal distance, the loop that would
  add points does not run, and two identifiers are returned, not \<open>min(1, 3) = 1\<close>.
\<close>

theorem one_suggestion_requested_two_returned:
  "get_suggestions example_env example_ds [1, 4, 5] 1 = Inr [1, 4]"
proof -
  have m: "get_metrics example_ds [1, 4, 5] = Some [(1, [Some 0]), (4, [Some 4]), (5, [Some 4])]"
    by (simp add: get_metrics_def example_ds_def)
  have d: "dist_matrix [[0], [4], [4]] = [[0, 4, 4], [4, 0, 0], [4, 0, 0]]"
    by (simp add: dist_matrix_def row_dist_def)
  have l: "ks_loop D 1 [0, Suc 0] = [0, Suc 0]" for D
    by (subst ks_loop.simps) simp
  have k: "kennard_stone [[0], [4], [4]] 1 = Inr [0, 1]"
    by (simp add: kennard_stone_def d l Let_def)
  have c: "metric_columns example_ds \<noteq> []" by (simp add: example_ds_def)
  have f: "fit_transform example_env [[0], [4], [4]] = ((), [[0], [4], [4]])"
    by (simp add: fit_transform_def transform_def example_env_def)
  show ?thesis
    unfolding get_suggestions_def m
    by (simp add: c metric_matrix_def fill_null_def f k)
qed

theorem one_suggestion_requested_two_returned_witness:
  "length (projr (get_suggestions example_env example_ds [1, 4, 5] 1)) = 2 \<and>
   min (1 :: int) (int (length [1, 4, 5 :: int])) = 1"
  using one_suggestion_requested_two_returned by simp

end
